theory Spec2Isabelle
  imports Complex_Main
begin

section \<open>Python values\<close>

text \<open>
  The module \<^verbatim>\<open>ccs/spline_functions.py\<close> computes with numpy arrays of floats.
  Floats are modelled by \<^typ>\<open>real\<close>, Python integers by \<^typ>\<open>int\<close>,
  one-dimensional arrays by lists and two-dimensional arrays by lists of rows.  Every
  exception the source can raise is a value of \<open>error\<close>.

  The arithmetic of the model is exact, where the source rounds the result of every
  operation to the nearest double.  A general statement below is a statement about the
  exact arithmetic.  The evaluator is also run on two grids in double precision; there
  every double is given by its exact value, and the inputs are ones on which the rounded
  computation resolves the same index and reads the same entries.
\<close>

datatype error = ValueError | IndexError | ZeroDivisionError | OverflowError | TypeError

type_synonym vector = "real list"
type_synonym matrix = "real list list"

text \<open>Indexing \<^verbatim>\<open>xs[i]\<close>: a negative index counts from the end, anything else out of
  range raises \<^verbatim>\<open>IndexError\<close>.\<close>

definition py_index :: "'a list \<Rightarrow> int \<Rightarrow> error + 'a" where
  "py_index xs i =
     (if 0 \<le> i \<and> i < int (length xs) then Inr (xs ! nat i)
      else if i < 0 \<and> - int (length xs) \<le> i then Inr (xs ! nat (int (length xs) + i))
      else Inl IndexError)"

text \<open>\<^verbatim>\<open>np.zeros((rows, cols))\<close> for non-negative dimensions.\<close>

definition np_zeros :: "nat \<Rightarrow> nat \<Rightarrow> matrix" where
  "np_zeros rows cols = replicate rows (replicate cols 0)"

text \<open>Boolean-mask assignment \<^verbatim>\<open>M[mask] = v\<close>, the mask given as a predicate on the
  index pair \<open>(i, j)\<close> of \<^verbatim>\<open>np.indices\<close>.\<close>

definition mask_assign :: "(nat \<Rightarrow> nat \<Rightarrow> bool) \<Rightarrow> real \<Rightarrow> matrix \<Rightarrow> matrix" where
  "mask_assign P v M =
     map (\<lambda>i. map (\<lambda>j. if P i j then v else M ! i ! j) [0..<length (M ! i)]) [0..<length M]"

text \<open>\<^verbatim>\<open>np.fill_diagonal(M, v, wrap=True)\<close> on a two-dimensional array writes
  \<^verbatim>\<open>M.flat[::cols + 1] = v\<close>: the flat positions that are multiples of \<open>cols + 1\<close>.\<close>

definition fill_diagonal_wrap :: "nat \<Rightarrow> real \<Rightarrow> matrix \<Rightarrow> matrix" where
  "fill_diagonal_wrap cols v M = mask_assign (\<lambda>i j. (i * cols + j) mod (cols + 1) = 0) v M"

text \<open>\<^verbatim>\<open>np.roll(M, 1, axis=1)\<close>: every row is rotated one place to the right.\<close>

definition roll_row :: "vector \<Rightarrow> vector" where
  "roll_row row = (if row = [] then [] else last row # butlast row)"

definition np_roll1 :: "matrix \<Rightarrow> matrix" where
  "np_roll1 M = map roll_row M"

definition mat_div :: "matrix \<Rightarrow> real \<Rightarrow> matrix" where
  "mat_div M k = map (map (\<lambda>e. e / k)) M"

definition mat_mul :: "matrix \<Rightarrow> real \<Rightarrow> matrix" where
  "mat_mul M k = map (map (\<lambda>e. e * k)) M"

text \<open>\<^verbatim>\<open>M = np.delete(M, 0, 0); M = np.vstack((M, np.zeros(M.shape[1])))\<close> on an
  array with at least one row.\<close>

definition drop_first_append_zeros :: "nat \<Rightarrow> matrix \<Rightarrow> matrix" where
  "drop_first_append_zeros cols M = tl M @ [replicate cols 0]"

definition set_entry :: "matrix \<Rightarrow> nat \<Rightarrow> nat \<Rightarrow> real \<Rightarrow> matrix" where
  "set_entry M i j v = M[i := (M ! i)[j := v]]"

section \<open>spline_construction\<close>

definition build_C :: "nat \<Rightarrow> nat \<Rightarrow> matrix" where
  "build_C rows cols = np_roll1 (fill_diagonal_wrap cols 1 (np_zeros rows cols))"

text \<open>The array \<open>D\<close> after the two mask assignments, before the division.\<close>

definition D_numerators :: "nat \<Rightarrow> nat \<Rightarrow> matrix" where
  "D_numerators rows cols =
     mask_assign (\<lambda>i j. int i = int j - 1) 1
       (mask_assign (\<lambda>i j. i = j) (- 1) (np_zeros rows cols))"

text \<open>
  \<^verbatim>\<open>D = D / dx\<close>.  numpy divides an array by \<open>dx = 0\<close> without raising (it warns):
  the entry of a positive numerator is \<open>inf\<close>, of a negative one \<open>-inf\<close>, of a zero one
  \<open>nan\<close>.  Reals have no such values, so an array divided by zero is kept as
  \<open>Div_by_zero\<close> of its numerators; otherwise the quotient is the array of the
  quotients.
\<close>

datatype quotient = Finite_array matrix | Div_by_zero matrix

definition np_divide :: "matrix \<Rightarrow> real \<Rightarrow> quotient" where
  "np_divide M k = (if k = 0 then Div_by_zero M else Finite_array (mat_div M k))"

definition build_D :: "nat \<Rightarrow> nat \<Rightarrow> real \<Rightarrow> quotient" where
  "build_D rows cols dx = np_divide (D_numerators rows cols) dx"

definition build_B :: "nat \<Rightarrow> nat \<Rightarrow> real \<Rightarrow> matrix" where
  "build_B rows cols dx =
     mat_mul
       (drop_first_append_zeros cols
         (mask_assign (\<lambda>i j. int j = int cols - 1) (- 0.5)
           (mask_assign (\<lambda>i j. i < j) (- 1)
             (mask_assign (\<lambda>i j. i = j) (- 0.5) (np_zeros rows cols)))))
       dx"

text \<open>The inner loop \<^verbatim>\<open>for col in range(cols - 2, -1, -1)\<close> of the construction of
  \<open>A\<close>, over the list of the remaining column indices.\<close>

fun A_cols :: "nat \<Rightarrow> nat list \<Rightarrow> matrix \<Rightarrow> matrix" where
  "A_cols row [] M = M"
| "A_cols row (col # cs) M =
     (let M1 = (if row = col then set_entry M row col (1 / 6.0) else M);
          M2 = (if col > row then set_entry M1 row col (real col - real row) else M1)
      in A_cols row cs M2)"

text \<open>The outer loop \<^verbatim>\<open>for row in range(rows - 1, -1, -1)\<close>, with the running value
  \<open>tmp\<close>.\<close>

fun A_rows :: "nat \<Rightarrow> nat list \<Rightarrow> real \<Rightarrow> matrix \<Rightarrow> matrix" where
  "A_rows cols [] tmp M = M"
| "A_rows cols (row # rs) tmp M =
     A_rows cols rs (tmp + 0.5)
       (A_cols row (rev [0..<cols - 1]) (set_entry M row (cols - 1) tmp))"

definition build_A :: "nat \<Rightarrow> nat \<Rightarrow> real \<Rightarrow> matrix" where
  "build_A rows cols dx =
     mat_mul
       (mat_mul
         (drop_first_append_zeros cols
           (A_rows cols (rev [0..<rows]) (1 / 3.0) (np_zeros rows cols)))
         dx)
       dx"

text \<open>
  \<^verbatim>\<open>spline_construction(rows, cols, dx)\<close> returns \<open>(C, D, B, A)\<close>.  A negative
  dimension makes \<^verbatim>\<open>np.zeros\<close> raise \<^verbatim>\<open>ValueError\<close>; with no row
  \<^verbatim>\<open>np.delete(B, 0, 0)\<close> raises \<^verbatim>\<open>IndexError\<close>, and with rows but no column
  \<^verbatim>\<open>A[row][cols - 1]\<close> does.  Nothing is raised for \<open>dx = 0\<close>: \<open>D\<close> is then an
  array divided by zero, and \<open>B\<close> and \<open>A\<close> are zero.
\<close>

definition spline_construction ::
  "int \<Rightarrow> int \<Rightarrow> real \<Rightarrow> error + (matrix \<times> quotient \<times> matrix \<times> matrix)" where
  "spline_construction rows cols dx =
     (if rows < 0 \<or> cols < 0 then Inl ValueError
      else if rows = 0 \<or> cols = 0 then Inl IndexError
      else Inr (build_C (nat rows) (nat cols),
                build_D (nat rows) (nat cols) dx,
                build_B (nat rows) (nat cols) dx,
                build_A (nat rows) (nat cols) dx))"

section \<open>spline_eval012\<close>

text \<open>
  \<^verbatim>\<open>spline_eval012(a, b, c, d, r, Rcut, Rmin, dx, x)\<close>.  The quotient
  \<^verbatim>\<open>(r - Rmin) / dx\<close> of Python floats raises \<^verbatim>\<open>ZeroDivisionError\<close> at
  \<open>dx = 0\<close>; it is only computed when \<open>r \<noteq> Rmin\<close>.  The index is the plain ceiling of
  the quotient.  The diagnostic \<^verbatim>\<open>print\<close> has no effect on the result and is left
  out.
\<close>

definition eval_index :: "real \<Rightarrow> real \<Rightarrow> real \<Rightarrow> error + int" where
  "eval_index r Rmin dx =
     (if r = Rmin then Inr 1
      else if dx = 0 then Inl ZeroDivisionError
      else Inr \<lceil>(r - Rmin) / dx\<rceil>)"

definition spline_eval012 ::
  "vector \<Rightarrow> vector \<Rightarrow> vector \<Rightarrow> vector \<Rightarrow> real \<Rightarrow> real \<Rightarrow> real \<Rightarrow> real \<Rightarrow> vector
     \<Rightarrow> error + (real \<times> real \<times> real)" where
  "spline_eval012 a b c d r Rcut Rmin dx x =
     (case eval_index r Rmin dx of
        Inl e \<Rightarrow> Inl e
      | Inr index \<Rightarrow>
          if index \<ge> 1 then
            (case py_index x index of
               Inl e \<Rightarrow> Inl e
             | Inr xi \<Rightarrow>
                 (case (py_index a (index - 1), py_index b (index - 1),
                        py_index c (index - 1), py_index d (index - 1)) of
                    (Inr ai, Inr bi, Inr ci, Inr di) \<Rightarrow>
                      (let dr = r - xi;
                           f0 = ai + dr * (bi + dr * (0.5 * ci + (di * dr / 3.0)));
                           f1 = bi + dr * (ci + (0.5 * di * dr));
                           f2 = ci + di * dr
                       in Inr (f0, f1, f2))
                  | _ \<Rightarrow> Inl IndexError))
          else Inl ValueError)"

section \<open>spline_energy_model\<close>

text \<open>\<^verbatim>\<open>np.rint\<close>: the nearest integer, a tie going to the even one.  The tie is a
  tie of the exact argument here; the source rounds the double it has computed, which
  can be a tie where the exact value is not.\<close>

definition rint :: "real \<Rightarrow> int" where
  "rint y =
     (let f = \<lfloor>y\<rfloor>; t = y - of_int f
      in if t < 1 / 2 then f
         else if t > 1 / 2 then f + 1
         else if even f then f else f + 1)"

text \<open>\<^verbatim>\<open>np.around(y, decimals)\<close> for a positive number of decimals: scale, round to
  the nearest integer, scale back.\<close>

definition np_around :: "real \<Rightarrow> nat \<Rightarrow> real" where
  "np_around y decimals = of_int (rint (y * 10 ^ decimals)) / 10 ^ decimals"

text \<open>\<^verbatim>\<open>int(np.ceil(np.around(((r - Rmin) / dx), decimals=5)))\<close>, for \<open>dx \<noteq> 0\<close>.\<close>

definition model_index :: "real \<Rightarrow> real \<Rightarrow> real \<Rightarrow> int" where
  "model_index r Rmin dx = \<lceil>np_around ((r - Rmin) / dx) 5\<rceil>"

text \<open>Elementwise sum of two arrays of one length.\<close>

definition vadd :: "vector \<Rightarrow> vector \<Rightarrow> vector" where
  "vadd u w = map2 (+) u w"

text \<open>
  One pass of the body of \<^verbatim>\<open>for r in distances\<close>: the new value of \<open>u\<close>.  The
  distance \<open>r\<close> is an element of a numpy array, so for \<open>dx = 0\<close> the quotient
  \<^verbatim>\<open>(r - Rmin) / dx\<close> is \<open>nan\<close> (at \<open>r = Rmin\<close>) or infinite, and \<^verbatim>\<open>int\<close> raises
  \<^verbatim>\<open>ValueError\<close> or \<^verbatim>\<open>OverflowError\<close>.  With an index, the source reads
  \<^verbatim>\<open>x[index]\<close>, then the rows \<^verbatim>\<open>index - 1\<close> of \<open>A\<close>, \<open>B\<close>, \<open>D\<close> and \<open>C\<close>, each with
  Python's indexing.
\<close>

definition accumulate ::
  "matrix \<times> matrix \<times> matrix \<times> matrix \<Rightarrow> real \<Rightarrow> real \<Rightarrow> vector \<Rightarrow> vector \<Rightarrow> real
     \<Rightarrow> error + vector" where
  "accumulate CDBA Rmin dx x u r =
     (case CDBA of (C, D, B, A) \<Rightarrow>
        if dx = 0 then Inl (if r = Rmin then ValueError else OverflowError)
        else
          (let index = model_index r Rmin dx in
           case py_index x index of
             Inl e \<Rightarrow> Inl e
           | Inr xi \<Rightarrow>
               (case (py_index A (index - 1), py_index B (index - 1),
                      py_index D (index - 1), py_index C (index - 1)) of
                  (Inr Ai, Inr Bi, Inr Di, Inr Ci) \<Rightarrow>
                    (let delta = r - xi;
                         a = Ai;
                         b = map (\<lambda>e. e * delta) Bi;
                         d = map (\<lambda>e. e * delta ^ 3 / 6.0) Di;
                         c_d = map (\<lambda>e. e * delta ^ 2 / 2.0) Ci
                     in Inr (vadd (vadd (vadd (vadd u a) b) c_d) d))
                | _ \<Rightarrow> Inl IndexError)))"

text \<open>The loop \<^verbatim>\<open>for r in distances\<close>; an exception ends it.\<close>

fun distances_loop ::
  "matrix \<times> matrix \<times> matrix \<times> matrix \<Rightarrow> real \<Rightarrow> real \<Rightarrow> vector \<Rightarrow> vector \<Rightarrow> real list
     \<Rightarrow> error + vector" where
  "distances_loop CDBA Rmin dx x u [] = Inr u"
| "distances_loop CDBA Rmin dx x u (r # rs) =
     (case accumulate CDBA Rmin dx x u r of
        Inl e \<Rightarrow> Inl e
      | Inr u' \<Rightarrow> distances_loop CDBA Rmin dx x u' rs)"

text \<open>
  The row of one configuration.  \<open>u\<close> starts as the scalar \<open>0\<close>, which numpy broadcasts
  both in \<^verbatim>\<open>u + a\<close> and in \<^verbatim>\<open>v[config, :] = u\<close>: it is the zero vector of length
  \<open>cols\<close> here.
\<close>

definition config_row ::
  "matrix \<times> matrix \<times> matrix \<times> matrix \<Rightarrow> real \<Rightarrow> real \<Rightarrow> nat \<Rightarrow> real \<Rightarrow> vector \<Rightarrow> real list
     \<Rightarrow> error + vector" where
  "config_row CDBA Rcut Rmin cols dx x dfrow =
     (let distances = filter (\<lambda>i. i \<le> Rcut \<and> i \<ge> Rmin) dfrow
      in distances_loop CDBA Rmin dx x (replicate cols 0) distances)"

text \<open>The loop \<^verbatim>\<open>for config in range(size)\<close>: the rows of \<open>v\<close> in order.\<close>

fun configs_loop ::
  "matrix \<times> matrix \<times> matrix \<times> matrix \<Rightarrow> real \<Rightarrow> real \<Rightarrow> matrix \<Rightarrow> nat \<Rightarrow> real \<Rightarrow> vector
     \<Rightarrow> nat list \<Rightarrow> error + matrix" where
  "configs_loop CDBA Rcut Rmin df cols dx x [] = Inr []"
| "configs_loop CDBA Rcut Rmin df cols dx x (config # rest) =
     (case py_index df (int config) of
        Inl e \<Rightarrow> Inl e
      | Inr dfrow \<Rightarrow>
          (case config_row CDBA Rcut Rmin cols dx x dfrow of
             Inl e \<Rightarrow> Inl e
           | Inr u \<Rightarrow>
               (case configs_loop CDBA Rcut Rmin df cols dx x rest of
                  Inl e \<Rightarrow> Inl e
                | Inr vs \<Rightarrow> Inr (u # vs))))"

text \<open>
  The entries of \<open>D\<close> for the loop body.  The body reads \<open>D\<close> only after it has an
  index, and for \<open>dx = 0\<close>, when \<open>D\<close> is an array divided by zero, it raises before:
  what stands for the entries then is never read.
\<close>

definition quotient_entries :: "quotient \<Rightarrow> matrix" where
  "quotient_entries Q = (case Q of Finite_array M \<Rightarrow> M | Div_by_zero N \<Rightarrow> N)"

text \<open>
  \<^verbatim>\<open>spline_energy_model(Rcut, Rmin, df, cols, dx, size, x)\<close>.  After the basis
  matrices are built \<open>cols\<close> is positive, so \<^verbatim>\<open>np.zeros((size, cols))\<close> raises only
  for a negative \<open>size\<close>.
\<close>

definition spline_energy_model ::
  "real \<Rightarrow> real \<Rightarrow> matrix \<Rightarrow> int \<Rightarrow> real \<Rightarrow> int \<Rightarrow> vector \<Rightarrow> error + matrix" where
  "spline_energy_model Rcut Rmin df cols dx size' x =
     (case spline_construction (cols - 1) cols dx of
        Inl e \<Rightarrow> Inl e
      | Inr (C, D, B, A) \<Rightarrow>
          if size' < 0 then Inl ValueError
          else configs_loop (C, quotient_entries D, B, A) Rcut Rmin df (nat cols) dx x [0..<nat size'])"

section \<open>Twobody\<close>

text \<open>
  \<^verbatim>\<open>np.linspace(start, stop, num, dtype=float)\<close>: \<open>num\<close> evenly spaced samples, both
  ends included; the last sample is set to \<open>stop\<close>.  A negative \<open>num\<close> raises
  \<^verbatim>\<open>ValueError\<close>.  The samples are the exact reals \<open>start + i * step\<close> here; numpy
  returns each of them rounded to a double (the first and the last are \<open>start\<close> and
  \<open>stop\<close> themselves).
\<close>

definition np_linspace :: "real \<Rightarrow> real \<Rightarrow> int \<Rightarrow> error + vector" where
  "np_linspace start stop num =
     (if num < 0 then Inl ValueError
      else Inr (map (\<lambda>i. if num > 1 \<and> int i = num - 1 then stop
                          else start + real i * ((stop - start) / of_int (num - 1)))
                  [0..<nat num]))"

record twobody =
  self_name :: string
  self_Rcut :: real
  self_Rmin :: real
  self_Nknots :: int
  self_Nswitch :: "int option"
  self_Dismat :: matrix
  self_Nconfigs :: int
  self_dx :: real
  self_cols :: int
  self_interval :: vector
  self_C :: matrix
  self_D :: quotient
  self_B :: matrix
  self_A :: matrix
  self_v :: matrix

text \<open>
  \<^verbatim>\<open>Twobody.__init__\<close>.  \<open>Rmin\<close> defaults to \<^verbatim>\<open>None\<close>, and then
  \<^verbatim>\<open>self.Rcut - self.Rmin\<close> raises \<^verbatim>\<open>TypeError\<close>; the division by
  \<open>Nknots = 0\<close> raises \<^verbatim>\<open>ZeroDivisionError\<close>.  There is no other check of the
  parameters: what else fails, fails inside numpy.
\<close>

definition Twobody_init ::
  "string \<Rightarrow> matrix \<Rightarrow> int \<Rightarrow> real \<Rightarrow> int \<Rightarrow> real option \<Rightarrow> int option \<Rightarrow> error + twobody" where
  "Twobody_init name Dismat Nconfigs Rcut Nknots Rmin Nswitch =
     (case Rmin of
        None \<Rightarrow> Inl TypeError
      | Some rmin \<Rightarrow>
          if Nknots = 0 then Inl ZeroDivisionError
          else
            (let dx = (Rcut - rmin) / of_int Nknots;
                 cols = Nknots + 1
             in case np_linspace rmin Rcut cols of
                  Inl e \<Rightarrow> Inl e
                | Inr interval \<Rightarrow>
                    (case spline_construction (cols - 1) cols dx of
                       Inl e \<Rightarrow> Inl e
                     | Inr (C, D, B, A) \<Rightarrow>
                         (case spline_energy_model Rcut rmin Dismat cols dx Nconfigs interval of
                            Inl e \<Rightarrow> Inl e
                          | Inr v \<Rightarrow>
                              Inr \<lparr>self_name = name, self_Rcut = Rcut, self_Rmin = rmin,
                                   self_Nknots = Nknots, self_Nswitch = Nswitch,
                                   self_Dismat = Dismat, self_Nconfigs = Nconfigs,
                                   self_dx = dx, self_cols = cols, self_interval = interval,
                                   self_C = C, self_D = D, self_B = B, self_A = A,
                                   self_v = v\<rparr>))))"

section \<open>Shapes\<close>

text \<open>An array has shape \<open>(rows, cols)\<close>.\<close>

definition has_shape :: "matrix \<Rightarrow> nat \<Rightarrow> nat \<Rightarrow> bool" where
  "has_shape M rows cols = (length M = rows \<and> list_all (\<lambda>row. length row = cols) M)"

text \<open>The entries of \<open>D\<close> for \<open>dx \<noteq> 0\<close>.\<close>

definition finite_D :: "nat \<Rightarrow> nat \<Rightarrow> real \<Rightarrow> matrix" where
  "finite_D rows cols dx = mat_div (D_numerators rows cols) dx"

section \<open>The index rule of the specification\<close>

text \<open>
  The specification words the index rule of the evaluator with a rounding step: the
  quotient is rounded to 5 decimal places before the ceiling.  This is that rule, to be
  compared with \<open>eval_index\<close>, which is what the source computes.
\<close>

definition spec_eval_index :: "real \<Rightarrow> real \<Rightarrow> real \<Rightarrow> int" where
  "spec_eval_index r Rmin dx =
     (if r = Rmin then 1 else \<lceil>np_around ((r - Rmin) / dx) 5\<rceil>)"

section \<open>Two grids in double precision\<close>

text \<open>
  The grids that \<open>Twobody\<close> builds in double precision for \<open>Rmin = 0.0\<close>,
  \<open>Rcut = 1.0\<close>, \<open>Nknots = 10\<close> and for \<open>Rmin = 0.8\<close>, \<open>Rcut = 5.0\<close>, \<open>Nknots = 7\<close>:
  \<open>dx\<close> as \<^verbatim>\<open>(Rcut - Rmin) / Nknots\<close> gives it and the knots as
  \<^verbatim>\<open>np.linspace(Rmin, Rcut, Nknots + 1)\<close> returns them, every double by its exact
  value.  In decimal notation \<open>dx_0_1_10\<close> is the double \<open>0.1\<close>, and the knots are
  \<open>0.0, 0.1, 0.2, 0.30000000000000004, 0.4, 0.5, 0.6000000000000001,
  0.7000000000000001, 0.8, 0.9, 1.0\<close>; \<open>Rmin_08\<close> is the double \<open>0.8\<close>, \<open>dx_08_5_7\<close> the
  double \<open>0.6\<close>, and the knots are \<open>0.8, 1.4, 2.0, 2.5999999999999996, 3.2, 3.8,
  4.3999999999999995, 5.0\<close>.
\<close>

definition dx_0_1_10 :: real where
  "dx_0_1_10 = 3602879701896397 / 36028797018963968"

definition knots_0_1_10 :: vector where
  "knots_0_1_10 =
     [0, 3602879701896397 / 36028797018963968, 3602879701896397 / 18014398509481984,
      1351079888211149 / 4503599627370496, 3602879701896397 / 9007199254740992, 1 / 2,
      1351079888211149 / 2251799813685248, 6305039478318695 / 9007199254740992,
      3602879701896397 / 4503599627370496, 8106479329266893 / 9007199254740992, 1]"

definition Rmin_08 :: real where
  "Rmin_08 = 3602879701896397 / 4503599627370496"

definition dx_08_5_7 :: real where
  "dx_08_5_7 = 5404319552844595 / 9007199254740992"

definition knots_08_5_7 :: vector where
  "knots_08_5_7 =
     [3602879701896397 / 4503599627370496, 3152519739159347 / 2251799813685248, 2,
      1463669878895411 / 562949953421312, 3602879701896397 / 1125899906842624,
      4278419646001971 / 1125899906842624, 4953959590107545 / 1125899906842624, 5]"

section \<open>Basic facts about the array operations\<close>

lemma has_shape_iff:
  "has_shape M rows cols \<longleftrightarrow> length M = rows \<and> (\<forall>i<rows. length (M ! i) = cols)"
  by (auto simp: has_shape_def list_all_length)

lemma has_shape_np_zeros: "has_shape (np_zeros rows cols) rows cols"
  by (simp add: has_shape_iff np_zeros_def)

lemma np_zeros_nth: "i < rows \<Longrightarrow> j < cols \<Longrightarrow> np_zeros rows cols ! i ! j = 0"
  by (simp add: np_zeros_def)

lemma has_shape_mask_assign:
  "has_shape M rows cols \<Longrightarrow> has_shape (mask_assign P v M) rows cols"
  by (simp add: has_shape_iff mask_assign_def)

lemma mask_assign_nth:
  "has_shape M rows cols \<Longrightarrow> i < rows \<Longrightarrow> j < cols \<Longrightarrow>
     mask_assign P v M ! i ! j = (if P i j then v else M ! i ! j)"
  by (simp add: has_shape_iff mask_assign_def)

lemma has_shape_mat_mul: "has_shape M rows cols \<Longrightarrow> has_shape (mat_mul M k) rows cols"
  by (simp add: has_shape_iff mat_mul_def)

lemma has_shape_mat_div: "has_shape M rows cols \<Longrightarrow> has_shape (mat_div M k) rows cols"
  by (simp add: has_shape_iff mat_div_def)

lemma mat_div_nth:
  "has_shape M rows cols \<Longrightarrow> i < rows \<Longrightarrow> mat_div M k ! i = map (\<lambda>e. e / k) (M ! i)"
  by (simp add: has_shape_iff mat_div_def)

lemma mat_mul_nth:
  "has_shape M rows cols \<Longrightarrow> i < rows \<Longrightarrow> mat_mul M k ! i = map (\<lambda>e. e * k) (M ! i)"
  by (simp add: has_shape_iff mat_mul_def)

lemma has_shape_np_roll1: "has_shape M rows cols \<Longrightarrow> has_shape (np_roll1 M) rows cols"
  by (auto simp: has_shape_iff np_roll1_def roll_row_def)

lemma has_shape_set_entry:
  "has_shape (set_entry M i j v) rows cols" if "has_shape M rows cols"
proof (cases "i < length M")
  case True
  then show ?thesis
    using that by (auto simp: has_shape_iff set_entry_def nth_list_update)
next
  case False
  then show ?thesis using that by (simp add: set_entry_def list_update_beyond)
qed

lemma has_shape_A_cols: "has_shape M rows cols \<Longrightarrow> has_shape (A_cols row cs M) rows cols"
  by (induction cs arbitrary: M) (simp_all add: has_shape_set_entry Let_def)

lemma has_shape_A_rows: "has_shape M rows cols \<Longrightarrow> has_shape (A_rows c rs tmp M) rows cols"
  by (induction rs arbitrary: tmp M) (simp_all add: has_shape_set_entry has_shape_A_cols)

lemma has_shape_drop_first_append_zeros:
  "has_shape M rows cols \<Longrightarrow> 0 < rows \<Longrightarrow> has_shape (drop_first_append_zeros cols M) rows cols"
  by (cases M) (auto simp: has_shape_def drop_first_append_zeros_def)

lemma has_shape_build_C: "has_shape (build_C rows cols) rows cols"
  by (simp add: build_C_def fill_diagonal_wrap_def has_shape_np_roll1 has_shape_mask_assign
      has_shape_np_zeros)

lemma has_shape_finite_D: "has_shape (finite_D rows cols dx) rows cols"
  by (simp add: finite_D_def D_numerators_def has_shape_mat_div has_shape_mask_assign has_shape_np_zeros)

lemma has_shape_build_B: "0 < rows \<Longrightarrow> has_shape (build_B rows cols dx) rows cols"
  by (simp add: build_B_def has_shape_mat_mul has_shape_drop_first_append_zeros
      has_shape_mask_assign has_shape_np_zeros)

lemma has_shape_build_A: "0 < rows \<Longrightarrow> has_shape (build_A rows cols dx) rows cols"
  by (simp add: build_A_def has_shape_mat_mul has_shape_drop_first_append_zeros
      has_shape_A_rows has_shape_np_zeros)

lemma last_row_drop_first_append_zeros:
  "length M = rows \<Longrightarrow> 0 < rows \<Longrightarrow>
     drop_first_append_zeros cols M ! (rows - 1) = replicate cols 0"
  by (cases M) (auto simp: drop_first_append_zeros_def nth_append)

lemma build_B_last_row:
  assumes "0 < rows"
  shows "build_B rows cols dx ! (rows - 1) = replicate cols 0"
proof -
  let ?M = "mask_assign (\<lambda>i j. int j = int cols - 1) (- 0.5)
           (mask_assign (\<lambda>i j. i < j) (- 1)
             (mask_assign (\<lambda>i j. i = j) (- 0.5) (np_zeros rows cols)))"
  have sh: "has_shape ?M rows cols"
    by (simp add: has_shape_mask_assign has_shape_np_zeros)
  then have sh': "has_shape (drop_first_append_zeros cols ?M) rows cols"
    using assms by (rule has_shape_drop_first_append_zeros)
  have "length ?M = rows" using sh by (simp add: has_shape_iff)
  then have "drop_first_append_zeros cols ?M ! (rows - 1) = replicate cols 0"
    using assms by (rule last_row_drop_first_append_zeros)
  then show ?thesis
    unfolding build_B_def using mat_mul_nth [OF sh', of "rows - 1" dx] assms by simp
qed

lemma build_A_last_row:
  assumes "0 < rows"
  shows "build_A rows cols dx ! (rows - 1) = replicate cols 0"
proof -
  let ?M = "A_rows cols (rev [0..<rows]) (1 / 3.0) (np_zeros rows cols)"
  have sh: "has_shape ?M rows cols"
    by (simp add: has_shape_A_rows has_shape_np_zeros)
  then have sh': "has_shape (drop_first_append_zeros cols ?M) rows cols"
    using assms by (rule has_shape_drop_first_append_zeros)
  have "length ?M = rows" using sh by (simp add: has_shape_iff)
  then have "drop_first_append_zeros cols ?M ! (rows - 1) = replicate cols 0"
    using assms by (rule last_row_drop_first_append_zeros)
  then show ?thesis
    unfolding build_A_def
    using mat_mul_nth [OF sh', of "rows - 1" dx]
      mat_mul_nth [OF has_shape_mat_mul [OF sh'], of "rows - 1" dx dx] assms by simp
qed

section \<open>Entries of the basis matrices\<close>

lemma diag_flat_position:
  fixes i j c :: nat
  assumes "i < c" "j < c"
  shows "((i * c + j) mod (c + 1) = 0) = (i = j)"
proof (cases "i \<le> j")
  case True
  have eq: "i * c + j = (j - i) + i * (c + 1)" using True by simp
  have "(i * c + j) mod (c + 1) = ((j - i) + i * (c + 1)) mod (c + 1)"
    by (simp only: eq)
  also have "\<dots> = (j - i) mod (c + 1)" by (rule mod_mult_self1)
  also have "\<dots> = j - i" using assms by simp
  finally show ?thesis using True by auto
next
  case False
  then have ji: "j < i" by simp
  then obtain k where k: "i = Suc k" by (cases i) auto
  have "c + 1 - i + j + k * (c + 1) = (c - k + j) + (k * c + k)" using k by simp
  also have "\<dots> = (c - k + k) + j + k * c" by simp
  also have "c - k + k = c" using assms k by simp
  finally have eq: "i * c + j = (c + 1 - i + j) + k * (c + 1)" using k by simp
  have "(i * c + j) mod (c + 1) = ((c + 1 - i + j) + k * (c + 1)) mod (c + 1)"
    by (simp only: eq)
  also have "\<dots> = (c + 1 - i + j) mod (c + 1)" by (rule mod_mult_self1)
  also have "\<dots> = c + 1 - i + j" using assms ji by simp
  finally show ?thesis using assms ji by auto
qed

lemma roll_row_nth:
  "j < length row \<Longrightarrow> roll_row row ! j = (if j = 0 then last row else row ! (j - 1))"
  by (cases j) (auto simp: roll_row_def nth_butlast)

lemma build_C_nth:
  assumes "i < rows" "j < rows + 1"
  shows "build_C rows (rows + 1) ! i ! j = (if j = i + 1 then 1 else 0)"
proof -
  let ?cols = "rows + 1"
  let ?F = "fill_diagonal_wrap ?cols 1 (np_zeros rows ?cols)"
  have sh: "has_shape ?F rows ?cols"
    by (simp add: fill_diagonal_wrap_def has_shape_mask_assign has_shape_np_zeros)
  have F: "?F ! i ! k = (if i = k then 1 else 0)" if "k < ?cols" for k
    using that assms diag_flat_position [of i ?cols k]
    by (simp add: fill_diagonal_wrap_def mask_assign_nth [OF has_shape_np_zeros] np_zeros_nth)
  have len: "length (?F ! i) = ?cols" using sh assms by (simp add: has_shape_iff)
  have "build_C rows ?cols ! i = roll_row (?F ! i)"
    using sh assms by (simp add: build_C_def np_roll1_def has_shape_iff)
  then have "build_C rows ?cols ! i ! j = (if j = 0 then last (?F ! i) else ?F ! i ! (j - 1))"
    using roll_row_nth [of j "?F ! i"] assms len by simp
  moreover have "last (?F ! i) = ?F ! i ! rows"
    using len by (metis add_diff_cancel_right' last_conv_nth length_0_conv add_is_0 zero_neq_one)
  ultimately show ?thesis using F [of rows] F [of "j - 1"] assms by auto
qed

lemma sum_list_two_point:
  fixes a b :: real
  assumes "i + 1 < n"
  shows "sum_list (map (\<lambda>j. if int i = int j - 1 then a else if i = j then b else 0) [0..<n]) = a + b"
proof -
  have "sum_list (map (\<lambda>j. if int i = int j - 1 then a else if i = j then b else 0) [0..<n])
      = (\<Sum>j = 0..<n. (if j = i + 1 then a else 0) + (if j = i then b else 0))"
    unfolding interv_sum_list_conv_sum_set_nat
    by (rule sum.cong) auto
  also have "\<dots> = (\<Sum>j = 0..<n. (if j = i + 1 then a else 0)) + (\<Sum>j = 0..<n. (if j = i then b else 0))"
    by (rule sum.distrib)
  also have "\<dots> = a + b"
    using assms by simp
  finally show ?thesis .
qed

lemma finite_D_row:
  assumes "i < rows"
  shows "finite_D rows cols dx ! i =
    map (\<lambda>j. (if int i = int j - 1 then 1 else if i = j then - 1 else 0) / dx) [0..<cols]"
proof -
  let ?M1 = "mask_assign (\<lambda>i j. i = j) (- 1) (np_zeros rows cols)"
  let ?M2 = "mask_assign (\<lambda>i j. int i = int j - 1) 1 ?M1"
  have sh1: "has_shape ?M1 rows cols" by (simp add: has_shape_mask_assign has_shape_np_zeros)
  have sh2: "has_shape ?M2 rows cols" by (simp add: has_shape_mask_assign has_shape_np_zeros)
  have len: "length (?M2 ! i) = cols" using sh2 assms by (simp add: has_shape_iff)
  have "?M2 ! i = map (\<lambda>j. if int i = int j - 1 then 1 else if i = j then - 1 else 0) [0..<cols]"
  proof (rule nth_equalityI)
    show "length (?M2 ! i) = length (map (\<lambda>j. if int i = int j - 1 then 1 else if i = j then - 1 else (0::real)) [0..<cols])"
      using len by simp
  next
    fix j assume "j < length (?M2 ! i)"
    then have j: "j < cols" using len by simp
    show "?M2 ! i ! j = map (\<lambda>j. if int i = int j - 1 then 1 else if i = j then - 1 else 0) [0..<cols] ! j"
      using j assms
      by (simp add: mask_assign_nth [OF sh1] mask_assign_nth [OF has_shape_np_zeros] np_zeros_nth)
  qed
  then show ?thesis
    unfolding finite_D_def D_numerators_def using mat_div_nth [OF sh2 assms, of dx] by (simp add: comp_def if_distrib)
qed

lemma finite_D_row_sum:
  assumes "i < rows"
  shows "sum_list (finite_D rows (rows + 1) dx ! i) = 0"
proof -
  have "sum_list (finite_D rows (rows + 1) dx ! i) =
     sum_list (map (\<lambda>j. if int i = int j - 1 then 1 / dx else if i = j then - 1 / dx else 0) [0..<rows + 1])"
    unfolding finite_D_row [OF assms]
    by (rule arg_cong [where f = sum_list]) auto
  also have "\<dots> = 1 / dx + - 1 / dx"
    using assms by (intro sum_list_two_point) simp
  finally show ?thesis by simp
qed

section \<open>Rounding and the index of the energy model\<close>

lemma rint_bounds: "\<lfloor>y\<rfloor> \<le> rint y \<and> rint y \<le> \<lceil>y\<rceil>"
proof -
  have "\<lceil>y\<rceil> = \<lfloor>y\<rfloor> + 1" if "y - of_int \<lfloor>y\<rfloor> > 0"
    using that by (simp add: ceiling_altdef)
  moreover have "\<lfloor>y\<rfloor> \<le> \<lceil>y\<rceil>" by (rule floor_le_ceiling)
  ultimately show ?thesis
    by (auto simp: rint_def Let_def)
qed

lemma rint_of_int: "rint (of_int n) = n"
  by (simp add: rint_def)

lemma np_around_of_int: "np_around (of_int n) d = of_int n"
proof -
  have "of_int n * (10::real) ^ d = of_int (n * 10 ^ d)" by simp
  then have "rint (of_int n * 10 ^ d) = n * 10 ^ d"
    using rint_of_int [of "n * 10 ^ d"] by simp
  then show ?thesis by (simp add: np_around_def)
qed

lemma np_around_bounds:
  assumes "of_int lo \<le> y" "y \<le> of_int hi"
  shows "of_int lo \<le> np_around y d \<and> np_around y d \<le> of_int hi"
proof -
  let ?s = "(10::real) ^ d"
  have pos: "0 < ?s" by simp
  have "of_int (lo * 10 ^ d) \<le> y * ?s" using assms(1) pos by simp
  then have "lo * 10 ^ d \<le> \<lfloor>y * ?s\<rfloor>" by (simp only: le_floor_iff)
  then have lo: "lo * 10 ^ d \<le> rint (y * ?s)" using rint_bounds [of "y * ?s"] by linarith
  have "y * ?s \<le> of_int (hi * 10 ^ d)" using assms(2) pos by simp
  then have "\<lceil>y * ?s\<rceil> \<le> hi * 10 ^ d" by (simp only: ceiling_le_iff)
  then have hi: "rint (y * ?s) \<le> hi * 10 ^ d" using rint_bounds [of "y * ?s"] by linarith
  have "(of_int (lo * 10 ^ d) :: real) \<le> of_int (rint (y * ?s))"
    using lo by (simp only: of_int_le_iff)
  then have "of_int lo * ?s \<le> of_int (rint (y * ?s))" by simp
  moreover have "(of_int (rint (y * ?s)) :: real) \<le> of_int (hi * 10 ^ d)"
    using hi by (simp only: of_int_le_iff)
  then have "of_int (rint (y * ?s)) \<le> of_int hi * ?s" by simp
  ultimately show ?thesis
    using pos by (simp add: np_around_def field_simps)
qed

lemma model_index_Rmin: "model_index Rmin Rmin dx = 0"
  using np_around_of_int [of 0 5] by (simp add: model_index_def)

lemma model_index_knot:
  assumes "dx \<noteq> 0"
  shows "model_index (Rmin + of_int k * dx) Rmin dx = k"
  using assms np_around_of_int [of k 5] by (simp add: model_index_def)

lemma model_index_bounds:
  assumes "0 < dx" "Rmin \<le> r" "r \<le> Rmin + of_int n * dx"
  shows "0 \<le> model_index r Rmin dx \<and> model_index r Rmin dx \<le> n"
proof -
  let ?q = "(r - Rmin) / dx"
  have "of_int 0 \<le> ?q" using assms by simp
  moreover have "?q \<le> of_int n" using assms by (simp add: field_simps)
  ultimately have "of_int 0 \<le> np_around ?q 5 \<and> np_around ?q 5 \<le> of_int n"
    by (rule np_around_bounds)
  then show ?thesis
    by (simp add: model_index_def ceiling_le_iff)
qed

section \<open>Indexing, vectors and the accumulation loops\<close>

lemma py_index_minus_one: "xs \<noteq> [] \<Longrightarrow> py_index xs (- 1) = Inr (xs ! (length xs - 1))"
  by (cases xs) (auto simp: py_index_def nat_add_distrib)

lemma py_index_Inr_mem: "py_index xs i = Inr y \<Longrightarrow> y \<in> set xs"
  by (auto simp: py_index_def split: if_splits)

lemma py_index_row_length:
  "has_shape M rows cols \<Longrightarrow> py_index M i = Inr row \<Longrightarrow> length row = cols"
  using py_index_Inr_mem [of M i row] by (auto simp: has_shape_def list_all_iff)

lemma py_index_map: "py_index (map f xs) i = map_sum id f (py_index xs i)"
proof -
  have "nat i < length xs" if "0 \<le> i" "i < int (length xs)"
    using that by linarith
  moreover have "nat (int (length xs) + i) < length xs" if "i < 0" "- int (length xs) \<le> i"
    using that by linarith
  ultimately show ?thesis by (simp add: py_index_def)
qed

lemma length_vadd: "length u = n \<Longrightarrow> length w = n \<Longrightarrow> length (vadd u w) = n"
  by (simp add: vadd_def)

lemma vadd_zero_left: "length w = n \<Longrightarrow> vadd (replicate n 0) w = w"
  by (rule nth_equalityI) (simp_all add: vadd_def)

lemma vadd_zero_right: "length u = n \<Longrightarrow> vadd u (replicate n 0) = u"
  by (rule nth_equalityI) (simp_all add: vadd_def)

lemma vadd_assoc:
  "length u = n \<Longrightarrow> length a = n \<Longrightarrow> length w = n \<Longrightarrow> vadd (vadd u a) w = vadd u (vadd a w)"
  by (rule nth_equalityI) (simp_all add: vadd_def)

lemma map_const_zero: "map (\<lambda>e. 0) xs = replicate (length xs) (0::real)"
  by (induction xs) simp_all

text \<open>The new value of \<open>u\<close> is \<open>u\<close> plus what the distance contributes to a zero vector.\<close>

lemma accumulate_vadd_nonzero:
  assumes "has_shape C rows cols" "has_shape D rows cols" "has_shape B rows cols"
    "has_shape A rows cols" "length u = cols"
    and nz: "dx \<noteq> 0"
  shows "accumulate (C, D, B, A) Rmin dx x u r =
    (case accumulate (C, D, B, A) Rmin dx x (replicate cols 0) r of
       Inl e \<Rightarrow> Inl e
     | Inr w \<Rightarrow> Inr (vadd u w))"
proof (cases "py_index x (model_index r Rmin dx)")
  case (Inl e)
  then show ?thesis using nz by (simp add: accumulate_def)
next
  case xi: (Inr xi)
  let ?i = "model_index r Rmin dx - 1"
  show ?thesis
  proof (cases "\<exists>Ai Bi Di Ci. py_index A ?i = Inr Ai \<and> py_index B ?i = Inr Bi
      \<and> py_index D ?i = Inr Di \<and> py_index C ?i = Inr Ci")
    case True
    then obtain Ai Bi Di Ci where rows: "py_index A ?i = Inr Ai" "py_index B ?i = Inr Bi"
      "py_index D ?i = Inr Di" "py_index C ?i = Inr Ci" by blast
    have len: "length Ai = cols" "length Bi = cols" "length Di = cols" "length Ci = cols"
      using assms rows by (auto dest: py_index_row_length)
    define b where "b = map (\<lambda>e. e * (r - xi)) Bi"
    define d where "d = map (\<lambda>e. e * (r - xi) ^ 3 / 6.0) Di"
    define c_d where "c_d = map (\<lambda>e. e * (r - xi) ^ 2 / 2.0) Ci"
    have lens: "length b = cols" "length d = cols" "length c_d = cols"
      using len by (simp_all add: b_def d_def c_d_def)
    have l: "accumulate (C, D, B, A) Rmin dx x u r = Inr (vadd (vadd (vadd (vadd u Ai) b) c_d) d)"
      using xi rows nz by (simp add: accumulate_def Let_def b_def d_def c_d_def)
    have r: "accumulate (C, D, B, A) Rmin dx x (replicate cols 0) r =
       Inr (vadd (vadd (vadd (vadd (replicate cols 0) Ai) b) c_d) d)"
      using xi rows nz by (simp add: accumulate_def Let_def b_def d_def c_d_def)
    have "vadd (vadd (vadd (vadd u Ai) b) c_d) d = vadd u (vadd (vadd (vadd Ai b) c_d) d)"
      using assms(5) len(1) lens
      by (simp add: vadd_assoc [of _ cols] length_vadd [of _ cols])
    moreover have "vadd (replicate cols 0) Ai = Ai" using len(1) by (rule vadd_zero_left)
    ultimately show ?thesis by (simp add: l r)
  next
    case False
    then have "accumulate (C, D, B, A) Rmin dx x u r = Inl IndexError" for u
      using xi nz by (auto simp: accumulate_def Let_def split: sum.splits)
    then show ?thesis by simp
  qed
qed

lemma accumulate_vadd:
  assumes "has_shape C rows cols" "has_shape D rows cols" "has_shape B rows cols"
    "has_shape A rows cols" "length u = cols"
  shows "accumulate (C, D, B, A) Rmin dx x u r =
    (case accumulate (C, D, B, A) Rmin dx x (replicate cols 0) r of
       Inl e \<Rightarrow> Inl e
     | Inr w \<Rightarrow> Inr (vadd u w))"
proof (cases "dx = 0")
  case True
  then show ?thesis by (simp add: accumulate_def)
next
  case False
  show ?thesis by (rule accumulate_vadd_nonzero [OF assms False])
qed

lemma accumulate_length:
  assumes "has_shape C rows cols" "has_shape D rows cols" "has_shape B rows cols"
    "has_shape A rows cols" "length u = cols"
    and "accumulate (C, D, B, A) Rmin dx x u r = Inr u'"
  shows "length u' = cols"
proof -
  obtain xi Ai Bi Di Ci where rows: "py_index A (model_index r Rmin dx - 1) = Inr Ai"
      "py_index B (model_index r Rmin dx - 1) = Inr Bi"
      "py_index D (model_index r Rmin dx - 1) = Inr Di"
      "py_index C (model_index r Rmin dx - 1) = Inr Ci"
    and u': "u' = vadd (vadd (vadd (vadd u Ai) (map (\<lambda>e. e * (r - xi)) Bi))
       (map (\<lambda>e. e * (r - xi) ^ 2 / 2.0) Ci)) (map (\<lambda>e. e * (r - xi) ^ 3 / 6.0) Di)"
    using assms(6) by (auto simp: accumulate_def Let_def split: sum.splits if_splits)
  have "length Ai = cols" "length Bi = cols" "length Di = cols" "length Ci = cols"
    using assms rows by (auto dest: py_index_row_length)
  then show ?thesis using assms(5) by (simp add: u' length_vadd [of _ cols])
qed

lemma py_index_defined:
  "- int (length xs) \<le> i \<Longrightarrow> i < int (length xs) \<Longrightarrow> \<exists>y. py_index xs i = Inr y"
  by (simp add: py_index_def)

lemma distances_loop_length:
  assumes "has_shape C rows cols" "has_shape D rows cols" "has_shape B rows cols"
    "has_shape A rows cols"
  shows "length u = cols \<Longrightarrow> distances_loop (C, D, B, A) Rmin dx x u rs = Inr u'
     \<Longrightarrow> length u' = cols"
proof (induction rs arbitrary: u)
  case Nil
  then show ?case by simp
next
  case (Cons r rs)
  from Cons.prems(2) obtain u1 where
    u1: "accumulate (C, D, B, A) Rmin dx x u r = Inr u1"
    and rest: "distances_loop (C, D, B, A) Rmin dx x u1 rs = Inr u'"
    by (auto split: sum.splits)
  have "length u1 = cols"
    using assms Cons.prems(1) u1 by (rule accumulate_length)
  then show ?case using rest by (rule Cons.IH)
qed

lemma distances_loop_vadd:
  assumes "has_shape C rows cols" "has_shape D rows cols" "has_shape B rows cols"
    "has_shape A rows cols"
  shows "length u = cols \<Longrightarrow>
    distances_loop (C, D, B, A) Rmin dx x u rs =
    (case distances_loop (C, D, B, A) Rmin dx x (replicate cols 0) rs of
       Inl e \<Rightarrow> Inl e
     | Inr w \<Rightarrow> Inr (vadd u w))"
proof (induction rs arbitrary: u)
  case Nil
  then show ?case by (simp add: vadd_zero_right)
next
  case (Cons r rs)
  note acc = accumulate_vadd [OF assms Cons.prems, of Rmin dx x r]
  show ?case
  proof (cases "accumulate (C, D, B, A) Rmin dx x (replicate cols 0) r")
    case (Inl e)
    then show ?thesis using acc by simp
  next
    case (Inr w)
    have lw: "length w = cols"
      using assms _ Inr by (rule accumulate_length) simp
    have luw: "length (vadd u w) = cols"
      using Cons.prems lw by (rule length_vadd)
    show ?thesis
    proof (cases "distances_loop (C, D, B, A) Rmin dx x (replicate cols 0) rs")
      case (Inl e)
      then show ?thesis
        using acc Inr Cons.IH [OF luw] Cons.IH [OF lw] by simp
    next
      case t: (Inr t)
      have "length t = cols"
        using assms _ t by (rule distances_loop_length) simp
      then have "vadd (vadd u w) t = vadd u (vadd w t)"
        using Cons.prems lw by (simp add: vadd_assoc)
      then show ?thesis
        using acc Inr t Cons.IH [OF luw] Cons.IH [OF lw] by simp
    qed
  qed
qed

lemma accumulate_defined:
  assumes "has_shape C rows cols" "has_shape D rows cols" "has_shape B rows cols"
    "has_shape A rows cols" "0 < rows" "length x = rows + 1"
    and "0 \<le> model_index r Rmin dx" "model_index r Rmin dx \<le> int rows"
    and nz: "dx \<noteq> 0"
  shows "\<exists>u'. accumulate (C, D, B, A) Rmin dx x u r = Inr u'"
proof -
  let ?i = "model_index r Rmin dx"
  have len: "length C = rows" "length D = rows" "length B = rows" "length A = rows"
    using assms(1-4) by (simp_all add: has_shape_def)
  obtain xi where "py_index x ?i = Inr xi"
    using py_index_defined [of x ?i] assms by auto
  moreover obtain Ai where "py_index A (?i - 1) = Inr Ai"
    using py_index_defined [of A "?i - 1"] assms len by auto
  moreover obtain Bi where "py_index B (?i - 1) = Inr Bi"
    using py_index_defined [of B "?i - 1"] assms len by auto
  moreover obtain Di where "py_index D (?i - 1) = Inr Di"
    using py_index_defined [of D "?i - 1"] assms len by auto
  moreover obtain Ci where "py_index C (?i - 1) = Inr Ci"
    using py_index_defined [of C "?i - 1"] assms len by auto
  ultimately show ?thesis using nz by (simp add: accumulate_def Let_def)
qed

lemma distances_loop_defined:
  assumes "has_shape C rows cols" "has_shape D rows cols" "has_shape B rows cols"
    "has_shape A rows cols" "0 < rows" "length x = rows + 1"
    and nz: "dx \<noteq> 0"
  shows "\<forall>r\<in>set rs. 0 \<le> model_index r Rmin dx \<and> model_index r Rmin dx \<le> int rows
     \<Longrightarrow> \<exists>u'. distances_loop (C, D, B, A) Rmin dx x u rs = Inr u'"
proof (induction rs arbitrary: u)
  case Nil
  then show ?case by simp
next
  case (Cons r rs)
  obtain u1 where "accumulate (C, D, B, A) Rmin dx x u r = Inr u1"
    using accumulate_defined [OF assms(1-6) _ _ nz, of r Rmin u] Cons.prems by auto
  moreover obtain u' where "distances_loop (C, D, B, A) Rmin dx x u1 rs = Inr u'"
    using Cons.IH [of u1] Cons.prems by auto
  ultimately show ?case by simp
qed

lemma config_row_defined:
  assumes "has_shape C rows cols" "has_shape D rows cols" "has_shape B rows cols"
    "has_shape A rows cols" "0 < rows" "length x = rows + 1"
    and "0 < dx" "Rcut = Rmin + real rows * dx"
  shows "\<exists>u. config_row (C, D, B, A) Rcut Rmin cols dx x dfrow = Inr u \<and> length u = cols"
proof -
  let ?ds = "filter (\<lambda>i. i \<le> Rcut \<and> i \<ge> Rmin) dfrow"
  have "\<forall>r\<in>set ?ds. 0 \<le> model_index r Rmin dx \<and> model_index r Rmin dx \<le> int rows"
    using model_index_bounds [of dx Rmin _ "int rows"] assms(7,8) by auto
  then obtain u where
    u: "distances_loop (C, D, B, A) Rmin dx x (replicate cols 0) ?ds = Inr u"
    using distances_loop_defined [OF assms(1-6)] assms(7) by fastforce
  moreover have "length u = cols"
    using assms(1-4) _ u by (rule distances_loop_length) simp
  ultimately show ?thesis by (simp add: config_row_def)
qed

lemma configs_loop_Inr:
  "configs_loop CDBA Rcut Rmin df cols dx x cs = Inr v \<Longrightarrow>
     length v = length cs \<and>
     (\<forall>k<length cs. \<exists>dfrow. py_index df (int (cs ! k)) = Inr dfrow \<and>
        config_row CDBA Rcut Rmin cols dx x dfrow = Inr (v ! k))"
proof (induction cs arbitrary: v)
  case Nil
  then show ?case by simp
next
  case (Cons c cs)
  from Cons.prems obtain dfrow u vs where
    parts: "py_index df (int c) = Inr dfrow"
      "config_row CDBA Rcut Rmin cols dx x dfrow = Inr u"
      "configs_loop CDBA Rcut Rmin df cols dx x cs = Inr vs" "v = u # vs"
    by (auto split: sum.splits)
  from Cons.IH [OF parts(3)] parts show ?case
    by (auto simp: nth_Cons split: nat.splits)
qed

lemma configs_loop_defined:
  assumes "\<And>dfrow. \<exists>u. config_row CDBA Rcut Rmin cols dx x dfrow = Inr u \<and> length u = cols"
  shows "\<forall>c\<in>set cs. c < length df \<Longrightarrow>
    \<exists>v. configs_loop CDBA Rcut Rmin df cols dx x cs = Inr v \<and> has_shape v (length cs) cols"
proof (induction cs)
  case Nil
  then show ?case by (simp add: has_shape_def)
next
  case (Cons c cs)
  have "py_index df (int c) = Inr (df ! c)"
    using Cons.prems by (simp add: py_index_def)
  moreover obtain u where "config_row CDBA Rcut Rmin cols dx x (df ! c) = Inr u" "length u = cols"
    using assms by blast
  moreover obtain vs where "configs_loop CDBA Rcut Rmin df cols dx x cs = Inr vs"
    "has_shape vs (length cs) cols"
    using Cons by auto
  ultimately show ?case by (simp add: has_shape_def)
qed

section \<open>The basis constructor and the concrete grid\<close>

lemma spline_construction_Inr:
  "1 \<le> rows \<Longrightarrow> 1 \<le> cols \<Longrightarrow> dx \<noteq> 0 \<Longrightarrow>
     spline_construction rows cols dx =
       Inr (build_C (nat rows) (nat cols), Finite_array (finite_D (nat rows) (nat cols) dx),
            build_B (nat rows) (nat cols) dx, build_A (nat rows) (nat cols) dx)"
  by (simp add: spline_construction_def build_D_def np_divide_def finite_D_def)

lemma np_linspace_grid:
  assumes "2 \<le> cols" "np_linspace Rmin Rcut cols = Inr x"
  shows "length x = nat cols"
    and "k < nat cols \<Longrightarrow> x ! k = Rmin + real k * ((Rcut - Rmin) / of_int (cols - 1))"
proof -
  have x: "x = map (\<lambda>i. if cols > 1 \<and> int i = cols - 1 then Rcut
                          else Rmin + real i * ((Rcut - Rmin) / of_int (cols - 1)))
                  [0..<nat cols]"
    using assms by (simp add: np_linspace_def split: if_splits)
  show "length x = nat cols" by (simp add: x)
  show "x ! k = Rmin + real k * ((Rcut - Rmin) / of_int (cols - 1))" if "k < nat cols"
  proof (cases "int k = cols - 1")
    case True
    then have "real_of_int (int k) = real_of_int (cols - 1)" by (simp only:)
    then have "real k = real_of_int cols - 1" by simp
    moreover have "real_of_int cols - 1 \<noteq> 0" using assms(1) by simp
    ultimately have "Rmin + real k * ((Rcut - Rmin) / of_int (cols - 1)) = Rcut" by simp
    then show ?thesis using that True assms(1) by (simp add: x)
  next
    case False
    then show ?thesis using that by (simp add: x)
  qed
qed

text \<open>
  C9.  For every \<open>rows \<ge> 1\<close>, \<open>cols = rows + 1\<close> and \<open>dx > 0\<close>, \<open>spline_construction\<close>
  returns four matrices \<open>C, D, B, A\<close> of shape \<open>(rows, cols)\<close>; the entry of \<open>C\<close> at
  \<open>(i, j)\<close> is 1 when \<open>j = i + 1\<close> and 0 otherwise; the entry of \<open>D\<close> at \<open>(i, j)\<close> is
  \<open>1 / dx\<close> when \<open>j = i + 1\<close>, \<open>-1 / dx\<close> when \<open>j = i\<close> and 0 otherwise; every row of
  \<open>D\<close> sums to 0.
\<close>

theorem spline_construction_shape_C_D:
  assumes "1 \<le> rows" "cols = rows + 1" "0 < dx"
  shows "\<exists>C D B A. spline_construction rows cols dx = Inr (C, Finite_array D, B, A)
     \<and> has_shape C (nat rows) (nat cols) \<and> has_shape D (nat rows) (nat cols)
     \<and> has_shape B (nat rows) (nat cols) \<and> has_shape A (nat rows) (nat cols)
     \<and> (\<forall>i<nat rows. \<forall>j<nat cols. C ! i ! j = (if j = i + 1 then 1 else 0))
     \<and> (\<forall>i<nat rows. \<forall>j<nat cols.
           D ! i ! j = (if j = i + 1 then 1 / dx else if j = i then - 1 / dx else 0))
     \<and> (\<forall>i<nat rows. sum_list (D ! i) = 0)"
proof -
  have cols: "nat cols = nat rows + 1" using assms by simp
  have pos: "0 < nat rows" using assms by simp
  have "spline_construction rows cols dx =
       Inr (build_C (nat rows) (nat cols), Finite_array (finite_D (nat rows) (nat cols) dx),
            build_B (nat rows) (nat cols) dx, build_A (nat rows) (nat cols) dx)"
    using assms by (intro spline_construction_Inr) simp_all
  moreover have "\<forall>i<nat rows. \<forall>j<nat cols.
      build_C (nat rows) (nat cols) ! i ! j = (if j = i + 1 then 1 else 0)"
    unfolding cols using build_C_nth by blast
  moreover have "\<forall>i<nat rows. \<forall>j<nat cols.
      finite_D (nat rows) (nat cols) dx ! i ! j =
        (if j = i + 1 then 1 / dx else if j = i then - 1 / dx else 0)"
    by (auto simp: finite_D_row)
  moreover have "\<forall>i<nat rows. sum_list (finite_D (nat rows) (nat cols) dx ! i) = 0"
    unfolding cols using finite_D_row_sum by blast
  ultimately show ?thesis
    using has_shape_build_C has_shape_finite_D has_shape_build_B [OF pos]
      has_shape_build_A [OF pos] by blast
qed

theorem spline_construction_shape_C_D_witness:
  "(1::int) \<le> 4 \<and> (5::int) = 4 + 1 \<and> (0::real) < 2
   \<and> (\<exists>C D B A. spline_construction 4 5 2 = Inr (C, Finite_array D, B, A)
     \<and> has_shape C 4 5 \<and> has_shape D 4 5 \<and> has_shape B 4 5 \<and> has_shape A 4 5
     \<and> C ! 2 ! 3 = 1 \<and> C ! 2 ! 2 = 0
     \<and> D ! 2 ! 3 = 1 / 2 \<and> D ! 2 ! 2 = - 1 / 2 \<and> D ! 2 ! 0 = 0
     \<and> sum_list (D ! 3) = 0)"
proof -
  have "\<exists>C D B A. spline_construction 4 5 2 = Inr (C, Finite_array D, B, A)
     \<and> has_shape C (nat 4) (nat 5) \<and> has_shape D (nat 4) (nat 5)
     \<and> has_shape B (nat 4) (nat 5) \<and> has_shape A (nat 4) (nat 5)
     \<and> (\<forall>i<nat 4. \<forall>j<nat 5. C ! i ! j = (if j = i + 1 then 1 else 0))
     \<and> (\<forall>i<nat 4. \<forall>j<nat 5.
           D ! i ! j = (if j = i + 1 then 1 / 2 else if j = i then - 1 / 2 else 0))
     \<and> (\<forall>i<nat 4. sum_list (D ! i) = 0)"
    by (rule spline_construction_shape_C_D) simp_all
  then obtain C D B A where *: "spline_construction 4 5 2 = Inr (C, Finite_array D, B, A)"
    "has_shape C 4 5" "has_shape D 4 5" "has_shape B 4 5" "has_shape A 4 5"
    "\<forall>i<4. \<forall>j<5. C ! i ! j = (if j = i + 1 then 1 else 0)"
    "\<forall>i<4. \<forall>j<5. D ! i ! j = (if j = i + 1 then 1 / 2 else if j = i then - 1 / 2 else (0::real))"
    "\<forall>i<4. sum_list (D ! i) = 0"
    by auto
  from *(6) have "C ! 2 ! 3 = 1" "C ! 2 ! 2 = 0" by simp_all
  moreover from *(7) have "D ! 2 ! 3 = 1 / 2" "D ! 2 ! 2 = - 1 / 2" "D ! 2 ! 0 = 0" by simp_all
  moreover from *(8) have "sum_list (D ! 3) = 0" by simp
  ultimately show ?thesis using *(1-5) by auto
qed

text \<open>
  C5.  The grid \<open>Rmin = 2.0\<close>, \<open>Rcut = 6.0\<close>, \<open>Nknots = 4\<close> with the single distance
  \<open>r = 3.5\<close>: \<open>dx = 1.0\<close>, \<open>cols = 5\<close>, the knots are \<open>[2, 3, 4, 5, 6]\<close>, the basis
  matrices are those of \<open>spline_construction 4 5 1.0\<close> and have shape \<open>(4, 5)\<close>, the index
  of \<open>r\<close> is 2, \<open>delta = 3.5 - x[2] = -0.5\<close>, and the row of the design matrix is
  \<open>A[1] + B[1] * (-0.5) + C[1] * 0.125 + D[1] * (-0.125 / 6)\<close>.
\<close>

theorem scenario_2_6_4:
  "\<exists>tw C D B A. Twobody_init ''pair'' [[3.5]] 1 6.0 4 (Some 2.0) None = Inr tw
     \<and> self_dx tw = 1.0 \<and> self_cols tw = 5 \<and> self_interval tw = [2, 3, 4, 5, 6]
     \<and> spline_construction 4 5 1.0 = Inr (C, Finite_array D, B, A)
     \<and> self_C tw = C \<and> self_D tw = Finite_array D \<and> self_B tw = B \<and> self_A tw = A
     \<and> has_shape C 4 5 \<and> has_shape D 4 5 \<and> has_shape B 4 5 \<and> has_shape A 4 5
     \<and> model_index 3.5 (self_Rmin tw) (self_dx tw) = 2
     \<and> 3.5 - self_interval tw ! 2 = - 0.5
     \<and> self_v tw =
         [vadd (vadd (vadd (A ! 1) (map (\<lambda>e. e * (- 0.5)) (B ! 1)))
            (map (\<lambda>e. e * 0.125) (C ! 1))) (map (\<lambda>e. e * (- 0.125 / 6)) (D ! 1))]"
proof -
  let ?C = "[[0, 1, 0, 0, 0], [0, 0, 1, 0, 0], [0, 0, 0, 1, 0], [0, 0, 0, 0, 1::real]]"
  let ?D = "[[- 1, 1, 0, 0, 0], [0, - 1, 1, 0, 0], [0, 0, - 1, 1, 0], [0, 0, 0, - 1, 1::real]]"
  let ?B = "[[0, - (1 / 2), - 1, - 1, - (1 / 2)], [0, 0, - (1 / 2), - 1, - (1 / 2)],
       [0, 0, 0, - (1 / 2), - (1 / 2)], [0, 0, 0, 0, 0::real]]"
  let ?A = "[[0, 1 / 6, 1, 2, 4 / 3], [0, 0, 1 / 6, 1, 5 / 6], [0, 0, 0, 1 / 6, 1 / 3],
       [0, 0, 0, 0, 0::real]]"
  let ?tw = "\<lparr>self_name = ''pair'', self_Rcut = 6, self_Rmin = 2, self_Nknots = 4,
        self_Nswitch = None, self_Dismat = [[7 / 2]], self_Nconfigs = 1,
        self_dx = 1, self_cols = 5, self_interval = [2, 3, 4, 5, 6],
        self_C = ?C, self_D = Finite_array ?D, self_B = ?B, self_A = ?A,
        self_v = [[0, 1 / 48, 25 / 48, 3 / 2, 13 / 12]]\<rparr>"
  have tw: "Twobody_init ''pair'' [[3.5]] 1 6.0 4 (Some 2.0) None = Inr ?tw"
    by code_simp
  have sc: "spline_construction 4 5 1.0 = Inr (?C, Finite_array ?D, ?B, ?A)"
    by code_simp
  have idx: "model_index 3.5 2 1 = 2"
    by code_simp
  have shapes: "has_shape ?C 4 5" "has_shape ?D 4 5" "has_shape ?B 4 5" "has_shape ?A 4 5"
    by (simp_all add: has_shape_def)
  have row: "[0, 1 / 48, 25 / 48, 3 / 2, 13 / 12] =
      vadd (vadd (vadd (?A ! 1) (map (\<lambda>e. e * (- 0.5)) (?B ! 1)))
            (map (\<lambda>e. e * 0.125) (?C ! 1))) (map (\<lambda>e. e * (- 0.125 / 6)) (?D ! 1))"
    by (simp add: vadd_def)
  have "Twobody_init ''pair'' [[3.5]] 1 6.0 4 (Some 2.0) None = Inr ?tw
     \<and> self_dx ?tw = 1.0 \<and> self_cols ?tw = 5 \<and> self_interval ?tw = [2, 3, 4, 5, 6]
     \<and> spline_construction 4 5 1.0 = Inr (?C, Finite_array ?D, ?B, ?A)
     \<and> self_C ?tw = ?C \<and> self_D ?tw = Finite_array ?D \<and> self_B ?tw = ?B \<and> self_A ?tw = ?A
     \<and> has_shape ?C 4 5 \<and> has_shape ?D 4 5 \<and> has_shape ?B 4 5 \<and> has_shape ?A 4 5
     \<and> model_index 3.5 (self_Rmin ?tw) (self_dx ?tw) = 2
     \<and> 3.5 - self_interval ?tw ! 2 = - 0.5
     \<and> self_v ?tw =
         [vadd (vadd (vadd (?A ! 1) (map (\<lambda>e. e * (- 0.5)) (?B ! 1)))
            (map (\<lambda>e. e * 0.125) (?C ! 1))) (map (\<lambda>e. e * (- 0.125 / 6)) (?D ! 1))]"
    by (intro conjI) (use tw sc shapes idx row in simp_all)
  then show ?thesis by blast
qed

text \<open>
  C2.  The energy model at the distance \<open>r = Rmin\<close> on the grid of \<open>Rmin = 2\<close>,
  \<open>Rcut = 6\<close>, \<open>cols = 5\<close>: the index is 0, outside \<open>[1, cols - 1]\<close>; no error is
  raised and a row is returned, the index having been used on \<open>x\<close> and, as \<open>-1\<close>, on the
  basis matrices.
\<close>

theorem energy_model_uses_index_zero:
  "model_index 2 2 1 = 0
   \<and> spline_energy_model 6 2 [[2]] 5 1 1 [2, 3, 4, 5, 6] = Inr [[0, 0, 0, 0, 0]]
   \<and> spline_energy_model 6 2 [[2.000004]] 5 1 1 [2, 3, 4, 5, 6] =
       Inr [[0, 0, 0, - (1 / 93750000000000000), 750001 / 93750000000000000]]"
  by code_simp

section \<open>The evaluator\<close>

lemma eval_index_below:
  assumes "0 < dx" "r < Rmin"
  shows "\<exists>i. eval_index r Rmin dx = Inr i \<and> i < 1"
proof -
  have "(r - Rmin) / dx < 0" using assms by (simp add: field_simps)
  then have "\<lceil>(r - Rmin) / dx\<rceil> \<le> 0" by (simp add: ceiling_le_iff)
  then show ?thesis using assms by (simp add: eval_index_def)
qed

lemma eval_index_not_below:
  assumes "0 < dx" "Rmin \<le> r"
  shows "\<exists>i. eval_index r Rmin dx = Inr i \<and> 1 \<le> i"
proof (cases "r = Rmin")
  case True
  then show ?thesis by (simp add: eval_index_def)
next
  case False
  then have "0 < (r - Rmin) / dx" using assms by simp
  then have "1 \<le> \<lceil>(r - Rmin) / dx\<rceil>" by linarith
  then show ?thesis using False assms by (simp add: eval_index_def)
qed

lemma py_index_error: "py_index xs i = Inl e \<Longrightarrow> e = IndexError"
  by (simp add: py_index_def split: if_splits)

lemma spline_eval012_not_ValueError:
  assumes "eval_index r Rmin dx = Inr i" "1 \<le> i"
  shows "spline_eval012 a b c d r Rcut Rmin dx x \<noteq> Inl ValueError"
  using assms by (auto simp: spline_eval012_def Let_def split: sum.splits dest: py_index_error)

text \<open>With \<open>dx > 0\<close> the evaluator raises \<^verbatim>\<open>ValueError\<close> exactly when \<open>r < Rmin\<close>.\<close>

lemma spline_eval012_ValueError_iff:
  assumes "0 < dx"
  shows "spline_eval012 a b c d r Rcut Rmin dx x = Inl ValueError \<longleftrightarrow> r < Rmin"
proof
  assume err: "spline_eval012 a b c d r Rcut Rmin dx x = Inl ValueError"
  show "r < Rmin"
  proof (rule ccontr)
    assume "\<not> r < Rmin"
    then obtain i where "eval_index r Rmin dx = Inr i" "1 \<le> i"
      using eval_index_not_below [OF assms, of Rmin r] by auto
    then show False using err spline_eval012_not_ValueError by blast
  qed
next
  assume "r < Rmin"
  then obtain i where "eval_index r Rmin dx = Inr i" "i < 1"
    using eval_index_below [OF assms] by blast
  then show "spline_eval012 a b c d r Rcut Rmin dx x = Inl ValueError"
    by (simp add: spline_eval012_def)
qed

text \<open>
  C3.  The index of \<open>spline_eval012\<close> is the ceiling of the quotient as it is, without the
  rounding to 5 decimal places that the rule states and that \<open>spline_energy_model\<close>
  applies.  At \<open>r = 3 + 1 / 2 ^ 20\<close> on the grid \<open>Rmin = 2\<close>, \<open>dx = 1\<close> the evaluator resolves
  the index 2 and returns the coefficients of the second segment, where the rule and the
  energy model resolve 1.  At the knot \<open>x[6] = 0.6000000000000001\<close> of the grid of
  \<open>Rmin = 0\<close>, \<open>Rcut = 1\<close>, \<open>Nknots = 10\<close> the evaluator resolves the index 7, the rule 6.
\<close>

theorem spline_eval012_index_not_rounded:
  "eval_index (3 + 1 / 2 ^ 20) 2 1 = Inr 2
   \<and> spec_eval_index (3 + 1 / 2 ^ 20) 2 1 = 1
   \<and> model_index (3 + 1 / 2 ^ 20) 2 1 = 1
   \<and> spline_eval012 [1, 2, 3, 4] [0, 0, 0, 0] [0, 0, 0, 0] [0, 0, 0, 0] (3 + 1 / 2 ^ 20) 6 2 1
        [2, 3, 4, 5, 6] = Inr (2, 0, 0)
   \<and> knots_0_1_10 ! 6 = 1351079888211149 / 2251799813685248
   \<and> eval_index (knots_0_1_10 ! 6) 0 dx_0_1_10 = Inr 7
   \<and> spec_eval_index (knots_0_1_10 ! 6) 0 dx_0_1_10 = 6"
  by code_simp

text \<open>
  C4.  The evaluator on the grid of \<open>Rmin = 0.8\<close>, \<open>Rcut = 5.0\<close>, \<open>Nknots = 7\<close>, with
  seven coefficients in each array, at \<open>r = Rcut\<close>: the quotient
  \<open>(r - Rmin) / dx\<close> exceeds 7, the index is 8, and \<open>x[8]\<close> raises \<^verbatim>\<open>IndexError\<close>.  No
  triple is returned for this \<open>r\<close> in \<open>[Rmin, Rcut]\<close>.
\<close>

theorem spline_eval012_IndexError_at_Rcut:
  "Rmin_08 \<le> 5 \<and> length knots_08_5_7 = 7 + 1
   \<and> eval_index 5 Rmin_08 dx_08_5_7 = Inr 8
   \<and> spline_eval012 [1, 2, 3, 4, 5, 6, 7] [0, 0, 0, 0, 0, 0, 0] [0, 0, 0, 0, 0, 0, 0]
        [0, 0, 0, 0, 0, 0, 0] 5 5 Rmin_08 dx_08_5_7 knots_08_5_7 = Inl IndexError"
  by code_simp

text \<open>
  C6.  The evaluator at the knot \<open>x[3] = 0.30000000000000004\<close> of the grid of
  \<open>Rmin = 0\<close>, \<open>Rcut = 1\<close>, \<open>Nknots = 10\<close>, with \<open>a = [1, ..., 10]\<close> and zero \<open>b\<close>, \<open>c\<close>,
  \<open>d\<close>: the quotient \<open>x[3] / dx\<close> exceeds 3, the index is 4 and \<open>dr = x[3] - x[4]\<close> is
  not 0; the triple returned is \<open>(a[3], b[3], c[3]) = (4, 0, 0)\<close>, not
  \<open>(a[2], b[2], c[2]) = (3, 0, 0)\<close>.
\<close>

theorem spline_eval012_at_knot_next_segment:
  "knots_0_1_10 ! 3 = 1351079888211149 / 4503599627370496
   \<and> eval_index (knots_0_1_10 ! 3) 0 dx_0_1_10 = Inr 4
   \<and> knots_0_1_10 ! 3 - knots_0_1_10 ! 4 = - (900719925474099 / 9007199254740992)
   \<and> spline_eval012 [1, 2, 3, 4, 5, 6, 7, 8, 9, 10] [0, 0, 0, 0, 0, 0, 0, 0, 0, 0]
        [0, 0, 0, 0, 0, 0, 0, 0, 0, 0] [0, 0, 0, 0, 0, 0, 0, 0, 0, 0]
        (knots_0_1_10 ! 3) 1 0 dx_0_1_10 knots_0_1_10 = Inr (4, 0, 0)
   \<and> ([1, 2, 3, 4, 5, 6, 7, 8, 9, 10 :: real] ! (3 - 1), (0::real), (0::real)) = (3, 0, 0)"
  by code_simp

section \<open>Rows of the design matrix\<close>

lemma spline_energy_model_Inr:
  assumes "spline_energy_model Rcut Rmin df cols dx size' x = Inr v"
  shows "\<exists>CDBA. 0 \<le> size'
     \<and> configs_loop CDBA Rcut Rmin df (nat cols) dx x [0..<nat size'] = Inr v"
  using assms by (auto simp: spline_energy_model_def split: sum.splits if_splits prod.splits)

lemma config_row_no_distance:
  assumes "\<forall>r\<in>set dfrow. \<not> (Rmin \<le> r \<and> r \<le> Rcut)"
  shows "config_row CDBA Rcut Rmin cols dx x dfrow = Inr (replicate cols 0)"
proof -
  have "filter (\<lambda>i. i \<le> Rcut \<and> i \<ge> Rmin) dfrow = []"
    using assms by (auto simp: filter_empty_conv)
  then show ?thesis by (simp add: config_row_def)
qed

text \<open>
  C8.  When the energy model returns \<open>v\<close>, the row of a configuration none of whose
  distances lies in \<open>[Rmin, Rcut]\<close> is the zero vector of length \<open>cols\<close>.
\<close>

theorem empty_config_zero_row:
  assumes "spline_energy_model Rcut Rmin df cols dx size' x = Inr v"
    and "int k < size'"
    and "\<forall>r\<in>set (df ! k). \<not> (Rmin \<le> r \<and> r \<le> Rcut)"
  shows "v ! k = replicate (nat cols) 0"
proof -
  obtain CDBA where
    loop: "configs_loop CDBA Rcut Rmin df (nat cols) dx x [0..<nat size'] = Inr v"
    using spline_energy_model_Inr [OF assms(1)] by blast
  have k: "k < length [0..<nat size']" using assms(2) by simp
  then obtain dfrow where
    row: "py_index df (int ([0..<nat size'] ! k)) = Inr dfrow"
    and v: "config_row CDBA Rcut Rmin (nat cols) dx x dfrow = Inr (v ! k)"
    using configs_loop_Inr [OF loop] by blast
  have "[0..<nat size'] ! k = k" using k by simp
  then have "py_index df (int k) = Inr dfrow" using row by simp
  then have "dfrow = df ! k" by (simp add: py_index_def split: if_splits)
  then have "config_row CDBA Rcut Rmin (nat cols) dx x dfrow = Inr (replicate (nat cols) 0)"
    using assms(3) by (simp add: config_row_no_distance)
  then show ?thesis using v by simp
qed

theorem empty_config_zero_row_witness:
  "spline_energy_model 6 2 [[1.5, 7], [3.5]] 5 1 2 [2, 3, 4, 5, 6]
     = Inr [[0, 0, 0, 0, 0], [0, 1 / 48, 25 / 48, 3 / 2, 13 / 12]]
   \<and> int 0 < (2::int)
   \<and> list_all (\<lambda>r. \<not> (2 \<le> r \<and> r \<le> 6)) ([[1.5, 7], [3.5::real]] ! 0)
   \<and> [[0, 0, 0, 0, 0], [0, 1 / 48, 25 / 48, 3 / 2, 13 / 12]] ! 0 = replicate (nat 5) (0::real)"
proof -
  have v: "spline_energy_model 6 2 [[1.5, 7], [3.5]] 5 1 2 [2, 3, 4, 5, 6]
     = Inr [[0, 0, 0, 0, 0], [0, 1 / 48, 25 / 48, 3 / 2, 13 / 12]]"
    by code_simp
  have out: "\<forall>r\<in>set ([[1.5, 7], [3.5::real]] ! 0). \<not> (2 \<le> r \<and> r \<le> 6)"
    by simp
  have "[[0, 0, 0, 0, 0], [0, 1 / 48, 25 / 48, 3 / 2, 13 / 12]] ! 0 = replicate (nat 5) (0::real)"
    by (rule empty_config_zero_row [OF v _ out]) simp
  then show ?thesis using v by simp
qed

lemma basis_shapes:
  assumes "2 \<le> cols" "dx \<noteq> 0"
  shows "spline_construction (cols - 1) cols dx =
       Inr (build_C (nat cols - 1) (nat cols), Finite_array (finite_D (nat cols - 1) (nat cols) dx),
            build_B (nat cols - 1) (nat cols) dx, build_A (nat cols - 1) (nat cols) dx)"
    and "has_shape (build_C (nat cols - 1) (nat cols)) (nat cols - 1) (nat cols)"
    and "has_shape (finite_D (nat cols - 1) (nat cols) dx) (nat cols - 1) (nat cols)"
    and "has_shape (build_B (nat cols - 1) (nat cols) dx) (nat cols - 1) (nat cols)"
    and "has_shape (build_A (nat cols - 1) (nat cols) dx) (nat cols - 1) (nat cols)"
proof -
  have n: "nat (cols - 1) = nat cols - 1" by simp
  have pos: "0 < nat cols - 1" using assms(1) by simp
  show "spline_construction (cols - 1) cols dx =
       Inr (build_C (nat cols - 1) (nat cols), Finite_array (finite_D (nat cols - 1) (nat cols) dx),
            build_B (nat cols - 1) (nat cols) dx, build_A (nat cols - 1) (nat cols) dx)"
    using spline_construction_Inr [of "cols - 1" cols dx] assms by (simp add: n)
  show "has_shape (build_C (nat cols - 1) (nat cols)) (nat cols - 1) (nat cols)"
    by (rule has_shape_build_C)
  show "has_shape (finite_D (nat cols - 1) (nat cols) dx) (nat cols - 1) (nat cols)"
    by (rule has_shape_finite_D)
  show "has_shape (build_B (nat cols - 1) (nat cols) dx) (nat cols - 1) (nat cols)"
    using pos by (rule has_shape_build_B)
  show "has_shape (build_A (nat cols - 1) (nat cols) dx) (nat cols - 1) (nat cols)"
    using pos by (rule has_shape_build_A)
qed

lemma grid_spacing:
  assumes "Rmin < Rcut" "2 \<le> cols" "dx = (Rcut - Rmin) / of_int (cols - 1)"
  shows "0 < dx" and "Rcut = Rmin + real (nat cols - 1) * dx"
proof -
  have c: "0 < (of_int (cols - 1) :: real)" using assms(2) by simp
  show "0 < dx" using assms(1) c unfolding assms(3) by simp
  have "real (nat cols - 1) = of_int (cols - 1)" using assms(2) by (simp add: of_nat_diff)
  then show "Rcut = Rmin + real (nat cols - 1) * dx"
    using c unfolding assms(3) by simp
qed

lemma spline_energy_model_finite:
  assumes "2 \<le> cols" "dx \<noteq> 0"
  shows "spline_energy_model Rcut Rmin df cols dx size' x =
     (if size' < 0 then Inl ValueError
      else configs_loop
        (build_C (nat cols - 1) (nat cols), finite_D (nat cols - 1) (nat cols) dx,
         build_B (nat cols - 1) (nat cols) dx, build_A (nat cols - 1) (nat cols) dx)
        Rcut Rmin df (nat cols) dx x [0..<nat size'])"
  by (simp add: spline_energy_model_def basis_shapes(1) [OF assms] quotient_entries_def)

lemma single_config:
  assumes "2 \<le> cols" "dx \<noteq> 0"
  shows "spline_energy_model Rcut Rmin [dfrow] cols dx 1 x =
     (case config_row
        (build_C (nat cols - 1) (nat cols), finite_D (nat cols - 1) (nat cols) dx,
         build_B (nat cols - 1) (nat cols) dx, build_A (nat cols - 1) (nat cols) dx)
        Rcut Rmin (nat cols) dx x dfrow of
        Inl e \<Rightarrow> Inl e
      | Inr u \<Rightarrow> Inr [u])"
  by (simp add: spline_energy_model_finite [OF assms] py_index_def split: sum.splits)

text \<open>
  C7.  On a grid (\<open>cols \<ge> 2\<close> knots in \<open>x\<close>, \<open>dx = (Rcut - Rmin) / (cols - 1) > 0\<close>) and
  for two distances in \<open>[Rmin, Rcut]\<close>, the energy model returns a row for each of the
  configurations \<open>{r1}\<close>, \<open>{r2}\<close> and \<open>{r1, r2}\<close>, and the third row is the elementwise
  sum of the first two.
\<close>

theorem energy_model_additive:
  assumes "Rmin < Rcut" "2 \<le> cols" "dx = (Rcut - Rmin) / of_int (cols - 1)"
    and "length x = nat cols"
    and "Rmin \<le> r1" "r1 \<le> Rcut" "Rmin \<le> r2" "r2 \<le> Rcut"
  shows "\<exists>row1 row2.
      spline_energy_model Rcut Rmin [[r1]] cols dx 1 x = Inr [row1]
    \<and> spline_energy_model Rcut Rmin [[r2]] cols dx 1 x = Inr [row2]
    \<and> spline_energy_model Rcut Rmin [[r1, r2]] cols dx 1 x = Inr [vadd row1 row2]
    \<and> length row1 = nat cols \<and> length row2 = nat cols"
proof -
  let ?n = "nat cols - 1" and ?c = "nat cols"
  let ?C = "build_C ?n ?c" and ?D = "finite_D ?n ?c dx"
  let ?B = "build_B ?n ?c dx" and ?A = "build_A ?n ?c dx"
  let ?z = "replicate ?c (0::real)"
  note g = grid_spacing [OF assms(1-3)]
  have dx: "dx \<noteq> 0" using g(1) by simp
  note b = basis_shapes [OF assms(2) dx]
  have pos: "0 < ?n" using assms(2) by simp
  have lx: "length x = ?n + 1" using assms(2,4) by simp
  have idx: "0 \<le> model_index r Rmin dx \<and> model_index r Rmin dx \<le> int ?n"
    if "Rmin \<le> r" "r \<le> Rcut" for r
    using model_index_bounds [of dx Rmin r "int ?n"] g that by simp
  obtain w1 where w1: "accumulate (?C, ?D, ?B, ?A) Rmin dx x ?z r1 = Inr w1"
    using accumulate_defined [OF b(2-5) pos lx _ _ dx, of r1 Rmin ?z] idx [OF assms(5,6)] by blast
  obtain w2 where w2: "accumulate (?C, ?D, ?B, ?A) Rmin dx x ?z r2 = Inr w2"
    using accumulate_defined [OF b(2-5) pos lx _ _ dx, of r2 Rmin ?z] idx [OF assms(7,8)] by blast
  have l1: "length w1 = ?c" using b(2-5) _ w1 by (rule accumulate_length) simp
  have l2: "length w2 = ?c" using b(2-5) _ w2 by (rule accumulate_length) simp
  have both: "accumulate (?C, ?D, ?B, ?A) Rmin dx x w1 r2 = Inr (vadd w1 w2)"
    using accumulate_vadd [OF b(2-5) l1, of Rmin dx x r2] w2 by simp
  have "spline_energy_model Rcut Rmin [[r1]] cols dx 1 x = Inr [w1]"
    using assms(5,6) w1 by (simp add: single_config [OF assms(2) dx] config_row_def)
  moreover have "spline_energy_model Rcut Rmin [[r2]] cols dx 1 x = Inr [w2]"
    using assms(7,8) w2 by (simp add: single_config [OF assms(2) dx] config_row_def)
  moreover have "spline_energy_model Rcut Rmin [[r1, r2]] cols dx 1 x = Inr [vadd w1 w2]"
    using assms(5-8) w1 both by (simp add: single_config [OF assms(2) dx] config_row_def)
  ultimately show ?thesis using l1 l2 by blast
qed

theorem energy_model_additive_witness:
  "(2::real) < 6 \<and> (2::int) \<le> 5 \<and> (1::real) = (6 - 2) / of_int (5 - 1)
   \<and> length [2, 3, 4, 5, 6 :: real] = nat 5
   \<and> (2::real) \<le> 3.5 \<and> (3.5::real) \<le> 6 \<and> (2::real) \<le> 2.5 \<and> (2.5::real) \<le> 6
   \<and> (\<exists>row1 row2.
      spline_energy_model 6 2 [[3.5]] 5 1 1 [2, 3, 4, 5, 6] = Inr [row1]
    \<and> spline_energy_model 6 2 [[2.5]] 5 1 1 [2, 3, 4, 5, 6] = Inr [row2]
    \<and> spline_energy_model 6 2 [[3.5, 2.5]] 5 1 1 [2, 3, 4, 5, 6] = Inr [vadd row1 row2]
    \<and> length row1 = nat 5 \<and> length row2 = nat 5)"
proof -
  have "\<exists>row1 row2.
      spline_energy_model 6 2 [[3.5]] 5 1 1 [2, 3, 4, 5, 6] = Inr [row1]
    \<and> spline_energy_model 6 2 [[2.5]] 5 1 1 [2, 3, 4, 5, 6] = Inr [row2]
    \<and> spline_energy_model 6 2 [[3.5, 2.5]] 5 1 1 [2, 3, 4, 5, 6] = Inr [vadd row1 row2]
    \<and> length row1 = nat 5 \<and> length row2 = nat 5"
    by (rule energy_model_additive) simp_all
  then show ?thesis by simp
qed

section \<open>Distances on the boundary of the grid\<close>

lemma accumulate_zero_contribution:
  assumes "py_index x (model_index r Rmin dx) = Inr r"
    and "py_index A (model_index r Rmin dx - 1) = Inr (replicate cols 0)"
    and "py_index B (model_index r Rmin dx - 1) = Inr (replicate cols 0)"
    and "py_index D (model_index r Rmin dx - 1) = Inr Di" "length Di = cols"
    and "py_index C (model_index r Rmin dx - 1) = Inr Ci" "length Ci = cols"
    and "length u = cols" and "dx \<noteq> 0"
  shows "accumulate (C, D, B, A) Rmin dx x u r = Inr u"
proof -
  have "map (\<lambda>e. e * (r - r) ^ 3 / 6.0) Di = replicate cols 0"
    using map_const_zero [of Di] assms(5) by simp
  moreover have "map (\<lambda>e. e * (r - r) ^ 2 / 2.0) Ci = replicate cols 0"
    using map_const_zero [of Ci] assms(7) by simp
  ultimately show ?thesis
    using assms by (simp add: accumulate_def Let_def vadd_zero_right)
qed

lemma distances_loop_filter:
  assumes "has_shape C rows cols" "has_shape D rows cols" "has_shape B rows cols"
    "has_shape A rows cols"
    and skip: "\<And>r u. \<not> keep r \<Longrightarrow> length u = cols \<Longrightarrow>
       accumulate (C, D, B, A) Rmin dx x u r = Inr u"
  shows "length u = cols \<Longrightarrow>
    distances_loop (C, D, B, A) Rmin dx x u (filter keep rs) =
    distances_loop (C, D, B, A) Rmin dx x u rs"
proof (induction rs arbitrary: u)
  case Nil
  then show ?case by simp
next
  case (Cons r rs)
  show ?case
  proof (cases "keep r")
    case True
    show ?thesis
    proof (cases "accumulate (C, D, B, A) Rmin dx x u r")
      case (Inl e)
      then show ?thesis using True by simp
    next
      case (Inr u1)
      have "length u1 = cols"
        using assms(1-4) Cons.prems Inr by (rule accumulate_length)
      then show ?thesis using True Inr Cons.IH by simp
    qed
  next
    case False
    then show ?thesis using skip [OF False Cons.prems] Cons.IH [OF Cons.prems] by simp
  qed
qed

lemma configs_loop_filter:
  assumes "\<And>dfrow. config_row CDBA Rcut Rmin cols dx x (filter keep dfrow) =
       config_row CDBA Rcut Rmin cols dx x dfrow"
  shows "configs_loop CDBA Rcut Rmin (map (filter keep) df) cols dx x cs =
    configs_loop CDBA Rcut Rmin df cols dx x cs"
proof (induction cs)
  case Nil
  then show ?case by simp
next
  case (Cons c cs)
  show ?case
  proof (cases "py_index df (int c)")
    case (Inl e)
    then show ?thesis by (simp add: py_index_map)
  next
    case (Inr dfrow)
    then show ?thesis using assms Cons.IH by (simp add: py_index_map cong: sum.case_cong)
  qed
qed

text \<open>
  C10.  On the grid of \<open>Twobody\<close> (\<open>cols \<ge> 2\<close> knots from \<^verbatim>\<open>np.linspace\<close>,
  \<open>dx = (Rcut - Rmin) / (cols - 1)\<close>, \<open>Rmin < Rcut\<close>): the index of \<open>r = Rmin\<close> is 0 and
  that of \<open>r = Rcut\<close> is \<open>cols - 1\<close>; \<open>x\<close> at these indices is \<open>r\<close> itself, so \<open>delta = 0\<close>;
  the rows \<open>index - 1\<close> of \<open>A\<close> and \<open>B\<close> (the row \<open>-1\<close> for \<open>Rmin\<close>) are the appended zero
  rows; such a distance leaves \<open>u\<close> unchanged, and the energy model returns the same as
  on the distance table from which every distance equal to \<open>Rmin\<close> or \<open>Rcut\<close> is removed.
\<close>

theorem boundary_distances_contribute_zero:
  assumes "Rmin < Rcut" "2 \<le> cols" "dx = (Rcut - Rmin) / of_int (cols - 1)"
    and "np_linspace Rmin Rcut cols = Inr x"
  shows "\<exists>C D B A. spline_construction (cols - 1) cols dx = Inr (C, Finite_array D, B, A)
    \<and> model_index Rmin Rmin dx = 0 \<and> model_index Rcut Rmin dx = cols - 1
    \<and> py_index x 0 = Inr Rmin \<and> py_index x (cols - 1) = Inr Rcut
    \<and> py_index A (0 - 1) = Inr (replicate (nat cols) 0)
    \<and> py_index B (0 - 1) = Inr (replicate (nat cols) 0)
    \<and> py_index A (cols - 1 - 1) = Inr (replicate (nat cols) 0)
    \<and> py_index B (cols - 1 - 1) = Inr (replicate (nat cols) 0)
    \<and> (\<forall>u. length u = nat cols \<longrightarrow>
          accumulate (C, D, B, A) Rmin dx x u Rmin = Inr u
        \<and> accumulate (C, D, B, A) Rmin dx x u Rcut = Inr u)
    \<and> (\<forall>df size'.
          spline_energy_model Rcut Rmin (map (filter (\<lambda>r. r \<noteq> Rmin \<and> r \<noteq> Rcut)) df) cols dx size' x
        = spline_energy_model Rcut Rmin df cols dx size' x)"
proof -
  let ?n = "nat cols - 1" and ?c = "nat cols"
  let ?C = "build_C ?n ?c" and ?D = "finite_D ?n ?c dx"
  let ?B = "build_B ?n ?c dx" and ?A = "build_A ?n ?c dx"
  let ?z = "replicate ?c (0::real)"
  let ?keep = "\<lambda>r. r \<noteq> Rmin \<and> r \<noteq> Rcut"
  note g = grid_spacing [OF assms(1-3)]
  have dx: "dx \<noteq> 0" using g(1) by simp
  note b = basis_shapes [OF assms(2) dx]
  have pos: "0 < ?n" using assms(2) by simp
  have len: "length ?C = ?n" "length ?D = ?n" "length ?B = ?n" "length ?A = ?n"
    using b(2-5) by (simp_all add: has_shape_def)
  have lx: "length x = ?c" by (rule np_linspace_grid(1) [OF assms(2,4)])
  have x0: "x ! 0 = Rmin"
    using np_linspace_grid(2) [OF assms(2,4), of 0] assms(2) by simp
  have "x ! ?n = Rmin + real ?n * ((Rcut - Rmin) / of_int (cols - 1))"
    using np_linspace_grid(2) [OF assms(2,4), of ?n] assms(2) by simp
  moreover have "Rcut = Rmin + real ?n * ((Rcut - Rmin) / of_int (cols - 1))"
    using g(2) unfolding assms(3) .
  ultimately have xn: "x ! ?n = Rcut" by linarith
  have i0: "model_index Rmin Rmin dx = 0" by (rule model_index_Rmin)
  have "Rcut = Rmin + of_int (cols - 1) * dx"
    using g(2) assms(2) by (simp add: of_nat_diff)
  then have in': "model_index Rcut Rmin dx = cols - 1"
    using model_index_knot [OF dx, of Rmin "cols - 1"] by simp
  have px0: "py_index x 0 = Inr Rmin"
    using lx x0 assms(2) by (simp add: py_index_def)
  have nn: "nat (cols - 1) = ?n" by simp
  have pxn: "py_index x (cols - 1) = Inr Rcut"
    using lx xn assms(2) by (simp add: py_index_def nn)
  have last_neg: "py_index M (0 - 1) = Inr (M ! (?n - 1))" if "length M = ?n" for M :: matrix
  proof -
    have "M \<noteq> []" using that pos by auto
    then show ?thesis using py_index_minus_one [of M] that by simp
  qed
  have n2: "nat (cols - 2) = ?n - 1" "nat cols - Suc (Suc 0) = ?n - 1" by simp_all
  have last_pos: "py_index M (cols - 1 - 1) = Inr (M ! (?n - 1))" if "length M = ?n" for M :: matrix
    using that assms(2) by (simp add: py_index_def n2(1))
  have zA: "?A ! (?n - 1) = ?z" using pos by (rule build_A_last_row)
  have zB: "?B ! (?n - 1) = ?z" using pos by (rule build_B_last_row)
  have rowlen: "length (M ! (?n - 1)) = ?c" if "has_shape M ?n ?c" for M
    using that pos by (simp add: has_shape_iff)
  have A0: "py_index ?A (0 - 1) = Inr ?z" using last_neg [OF len(4)] zA by simp
  have B0: "py_index ?B (0 - 1) = Inr ?z" using last_neg [OF len(3)] zB by simp
  have An: "py_index ?A (cols - 1 - 1) = Inr ?z" using last_pos [OF len(4)] zA by simp
  have Bn: "py_index ?B (cols - 1 - 1) = Inr ?z" using last_pos [OF len(3)] zB by simp
  have accRmin: "accumulate (?C, ?D, ?B, ?A) Rmin dx x u Rmin = Inr u" if "length u = ?c" for u
  proof (rule accumulate_zero_contribution [where cols = ?c])
    show "py_index x (model_index Rmin Rmin dx) = Inr Rmin"
      unfolding i0 by (rule px0)
    show "py_index ?A (model_index Rmin Rmin dx - 1) = Inr ?z"
      unfolding i0 by (rule A0)
    show "py_index ?B (model_index Rmin Rmin dx - 1) = Inr ?z"
      unfolding i0 by (rule B0)
    show "py_index ?D (model_index Rmin Rmin dx - 1) = Inr (?D ! (?n - 1))"
      unfolding i0 by (rule last_neg [OF len(2)])
    show "py_index ?C (model_index Rmin Rmin dx - 1) = Inr (?C ! (?n - 1))"
      unfolding i0 by (rule last_neg [OF len(1)])
    show "length (?D ! (?n - 1)) = ?c" by (rule rowlen [OF b(3)])
    show "length (?C ! (?n - 1)) = ?c" by (rule rowlen [OF b(2)])
    show "length u = ?c" by (rule that)
    show "dx \<noteq> 0" by (rule dx)
  qed
  have accRcut: "accumulate (?C, ?D, ?B, ?A) Rmin dx x u Rcut = Inr u" if "length u = ?c" for u
  proof (rule accumulate_zero_contribution [where cols = ?c])
    show "py_index x (model_index Rcut Rmin dx) = Inr Rcut"
      unfolding in' by (rule pxn)
    show "py_index ?A (model_index Rcut Rmin dx - 1) = Inr ?z"
      unfolding in' by (rule An)
    show "py_index ?B (model_index Rcut Rmin dx - 1) = Inr ?z"
      unfolding in' by (rule Bn)
    show "py_index ?D (model_index Rcut Rmin dx - 1) = Inr (?D ! (?n - 1))"
      unfolding in' by (rule last_pos [OF len(2)])
    show "py_index ?C (model_index Rcut Rmin dx - 1) = Inr (?C ! (?n - 1))"
      unfolding in' by (rule last_pos [OF len(1)])
    show "length (?D ! (?n - 1)) = ?c" by (rule rowlen [OF b(3)])
    show "length (?C ! (?n - 1)) = ?c" by (rule rowlen [OF b(2)])
    show "length u = ?c" by (rule that)
    show "dx \<noteq> 0" by (rule dx)
  qed
  have skip: "accumulate (?C, ?D, ?B, ?A) Rmin dx x u r = Inr u"
    if "\<not> ?keep r" "length u = ?c" for r u
    using that accRmin accRcut by auto
  have row: "config_row (?C, ?D, ?B, ?A) Rcut Rmin ?c dx x (filter ?keep dfrow) =
       config_row (?C, ?D, ?B, ?A) Rcut Rmin ?c dx x dfrow" for dfrow
  proof -
    have "filter (\<lambda>i. i \<le> Rcut \<and> i \<ge> Rmin) (filter ?keep dfrow) =
        filter ?keep (filter (\<lambda>i. i \<le> Rcut \<and> i \<ge> Rmin) dfrow)"
      by (simp add: conj_commute)
    moreover have "distances_loop (?C, ?D, ?B, ?A) Rmin dx x ?z (filter ?keep rs) =
        distances_loop (?C, ?D, ?B, ?A) Rmin dx x ?z rs" for rs
    proof (rule distances_loop_filter [OF b(2-5)])
      show "accumulate (?C, ?D, ?B, ?A) Rmin dx x u r = Inr u"
        if "\<not> ?keep r" "length u = ?c" for r u
        using that by (rule skip)
      show "length ?z = ?c" by simp
    qed
    ultimately show ?thesis
      unfolding config_row_def Let_def by (simp only:)
  qed
  have model: "spline_energy_model Rcut Rmin (map (filter ?keep) df) cols dx size' x
        = spline_energy_model Rcut Rmin df cols dx size' x" for df size'
    using configs_loop_filter [of "(?C, ?D, ?B, ?A)" Rcut Rmin ?c dx x ?keep, OF row]
    by (simp add: spline_energy_model_finite [OF assms(2) dx])
  show ?thesis
    using b(1) i0 in' px0 pxn A0 B0 An Bn accRmin accRcut model by blast
qed

theorem boundary_distances_contribute_zero_witness:
  "(2::real) < 6 \<and> (2::int) \<le> 5 \<and> (1::real) = (6 - 2) / of_int (5 - 1)
   \<and> np_linspace 2 6 5 = Inr [2, 3, 4, 5, 6]
   \<and> model_index 2 2 1 = 0 \<and> model_index 6 2 1 = 5 - 1
   \<and> spline_energy_model 6 2 [[3.5]] 5 1 1 [2, 3, 4, 5, 6]
       = spline_energy_model 6 2 [[2, 3.5, 6]] 5 1 1 [2, 3, 4, 5, 6]"
proof -
  have ls: "np_linspace 2 6 5 = Inr [2, 3, 4, 5, 6]"
    by code_simp
  have "\<exists>C D B A. spline_construction (5 - 1) 5 1 = Inr (C, Finite_array D, B, A)
    \<and> model_index 2 2 1 = 0 \<and> model_index 6 2 1 = 5 - 1
    \<and> py_index [2, 3, 4, 5, 6 :: real] 0 = Inr 2
    \<and> py_index [2, 3, 4, 5, 6 :: real] (5 - 1) = Inr 6
    \<and> py_index A (0 - 1) = Inr (replicate (nat 5) 0)
    \<and> py_index B (0 - 1) = Inr (replicate (nat 5) 0)
    \<and> py_index A (5 - 1 - 1) = Inr (replicate (nat 5) 0)
    \<and> py_index B (5 - 1 - 1) = Inr (replicate (nat 5) 0)
    \<and> (\<forall>u. length u = nat 5 \<longrightarrow>
          accumulate (C, D, B, A) 2 1 [2, 3, 4, 5, 6] u 2 = Inr u
        \<and> accumulate (C, D, B, A) 2 1 [2, 3, 4, 5, 6] u 6 = Inr u)
    \<and> (\<forall>df size'.
          spline_energy_model 6 2 (map (filter (\<lambda>r. r \<noteq> 2 \<and> r \<noteq> 6)) df) 5 1 size' [2, 3, 4, 5, 6]
        = spline_energy_model 6 2 df 5 1 size' [2, 3, 4, 5, 6])"
    by (rule boundary_distances_contribute_zero [OF _ _ _ ls]) simp_all
  then have idx: "model_index 2 2 1 = 0" "model_index 6 2 1 = 5 - 1"
    and eq: "spline_energy_model 6 2 (map (filter (\<lambda>r. r \<noteq> 2 \<and> r \<noteq> 6)) [[2, 3.5, 6]]) 5 1 1
          [2, 3, 4, 5, 6]
        = spline_energy_model 6 2 [[2, 3.5, 6]] 5 1 1 [2, 3, 4, 5, 6]"
    by blast+
  have "map (filter (\<lambda>r. r \<noteq> 2 \<and> r \<noteq> 6)) [[2, 3.5, 6 :: real]] = [[3.5]]"
    by simp
  then show ?thesis using ls idx eq by simp
qed

section \<open>Construction of a Twobody object\<close>

lemma np_linspace_Inr:
  "0 \<le> num \<Longrightarrow> \<exists>x. np_linspace start stop num = Inr x"
  by (simp add: np_linspace_def)

lemma spline_energy_model_defined:
  assumes "Rmin < Rcut" "2 \<le> cols" "dx = (Rcut - Rmin) / of_int (cols - 1)"
    and "length x = nat cols" "0 \<le> size'" "size' \<le> int (length df)"
  shows "\<exists>v. spline_energy_model Rcut Rmin df cols dx size' x = Inr v
     \<and> has_shape v (nat size') (nat cols)"
proof -
  let ?n = "nat cols - 1" and ?c = "nat cols"
  let ?CDBA = "(build_C ?n ?c, finite_D ?n ?c dx, build_B ?n ?c dx, build_A ?n ?c dx)"
  note g = grid_spacing [OF assms(1-3)]
  have dx: "dx \<noteq> 0" using g(1) by simp
  note b = basis_shapes [OF assms(2) dx]
  have pos: "0 < ?n" using assms(2) by simp
  have lx: "length x = ?n + 1" using assms(2,4) by simp
  have row: "\<exists>u. config_row ?CDBA Rcut Rmin ?c dx x dfrow = Inr u \<and> length u = ?c" for dfrow
    by (rule config_row_defined [OF b(2-5) pos lx g])
  have "\<forall>c\<in>set [0..<nat size']. c < length df" using assms(6) by auto
  then obtain v where "configs_loop ?CDBA Rcut Rmin df ?c dx x [0..<nat size'] = Inr v"
    "has_shape v (length [0..<nat size']) ?c"
    using configs_loop_defined [of ?CDBA Rcut Rmin ?c dx x "[0..<nat size']" df, OF row]
    by blast
  then show ?thesis using assms(5) by (simp add: spline_energy_model_finite [OF assms(2) dx])
qed

lemma configs_loop_no_distance:
  assumes "\<And>dfrow. config_row CDBA Rcut Rmin cols dx x dfrow = Inr (replicate cols 0)"
  shows "\<forall>c\<in>set cs. c < length df \<Longrightarrow>
    configs_loop CDBA Rcut Rmin df cols dx x cs = Inr (replicate (length cs) (replicate cols 0))"
proof (induction cs)
  case Nil
  then show ?case by simp
next
  case (Cons c cs)
  have "py_index df (int c) = Inr (df ! c)"
    using Cons.prems by (simp add: py_index_def)
  then show ?case using assms Cons by simp
qed

text \<open>With \<open>Rcut < Rmin\<close> no distance passes the filter, and every row is zero.\<close>

lemma spline_energy_model_Rcut_below_Rmin:
  assumes "Rcut < Rmin" "2 \<le> cols" "dx \<noteq> 0" "0 \<le> size'" "size' \<le> int (length df)"
  shows "spline_energy_model Rcut Rmin df cols dx size' x =
    Inr (replicate (nat size') (replicate (nat cols) 0))"
proof -
  let ?n = "nat cols - 1" and ?c = "nat cols"
  let ?CDBA = "(build_C ?n ?c, finite_D ?n ?c dx, build_B ?n ?c dx, build_A ?n ?c dx)"
  have row: "config_row ?CDBA Rcut Rmin ?c dx x dfrow = Inr (replicate ?c 0)" for dfrow
    using assms(1) by (intro config_row_no_distance) auto
  have "\<forall>c\<in>set [0..<nat size']. c < length df" using assms(5) by auto
  then have "configs_loop ?CDBA Rcut Rmin df ?c dx x [0..<nat size'] =
      Inr (replicate (length [0..<nat size']) (replicate ?c 0))"
    by (rule configs_loop_no_distance [OF row])
  then show ?thesis
    using assms(4) by (simp add: spline_energy_model_finite [OF assms(2,3)])
qed

text \<open>
  C1.  \<open>Twobody\<close> makes no check of its parameters.  With \<open>Nknots = 0\<close> the division
  raises \<^verbatim>\<open>ZeroDivisionError\<close> and with \<open>Nknots < 0\<close> numpy raises
  \<^verbatim>\<open>ValueError\<close>, both during construction.  With \<open>Rcut > Rmin\<close>, \<open>Nknots \<ge> 1\<close> and
  \<open>0 \<le> Nconfigs \<le>\<close> the number of rows of the distance table, construction succeeds
  and every derived field is computed: \<open>dx = (Rcut - Rmin) / Nknots\<close>,
  \<open>cols = Nknots + 1\<close>, the knots of \<^verbatim>\<open>np.linspace\<close> (\<open>cols\<close> of them, the \<open>k\<close>-th being
  \<open>Rmin + k * dx\<close>), the basis matrices of \<open>spline_construction\<close> and the design matrix
  of \<open>spline_energy_model\<close>, of shape \<open>(Nconfigs, cols)\<close>.  With \<open>Rcut < Rmin\<close> and the
  same conditions on \<open>Nknots\<close> and \<open>Nconfigs\<close>, construction succeeds as well: \<open>dx\<close> is
  negative and the design matrix is zero.
\<close>

theorem Twobody_init_construction:
  "(Nknots = 0 \<longrightarrow>
      Twobody_init name Dismat Nconfigs Rcut Nknots (Some Rmin) Nswitch = Inl ZeroDivisionError)
   \<and> (Nknots < 0 \<longrightarrow>
      Twobody_init name Dismat Nconfigs Rcut Nknots (Some Rmin) Nswitch = Inl ValueError)
   \<and> (Rcut > Rmin \<and> Nknots \<ge> 1 \<and> 0 \<le> Nconfigs \<and> Nconfigs \<le> int (length Dismat) \<longrightarrow>
      (\<exists>x C D B A v.
         Twobody_init name Dismat Nconfigs Rcut Nknots (Some Rmin) Nswitch =
           Inr \<lparr>self_name = name, self_Rcut = Rcut, self_Rmin = Rmin,
                self_Nknots = Nknots, self_Nswitch = Nswitch,
                self_Dismat = Dismat, self_Nconfigs = Nconfigs,
                self_dx = (Rcut - Rmin) / of_int Nknots, self_cols = Nknots + 1,
                self_interval = x, self_C = C, self_D = Finite_array D, self_B = B,
                self_A = A, self_v = v\<rparr>
       \<and> np_linspace Rmin Rcut (Nknots + 1) = Inr x \<and> length x = nat (Nknots + 1)
       \<and> (\<forall>k<nat (Nknots + 1). x ! k = Rmin + real k * ((Rcut - Rmin) / of_int Nknots))
       \<and> spline_construction Nknots (Nknots + 1) ((Rcut - Rmin) / of_int Nknots)
            = Inr (C, Finite_array D, B, A)
       \<and> has_shape C (nat Nknots) (nat (Nknots + 1))
       \<and> has_shape D (nat Nknots) (nat (Nknots + 1))
       \<and> has_shape B (nat Nknots) (nat (Nknots + 1))
       \<and> has_shape A (nat Nknots) (nat (Nknots + 1))
       \<and> spline_energy_model Rcut Rmin Dismat (Nknots + 1)
            ((Rcut - Rmin) / of_int Nknots) Nconfigs x = Inr v
       \<and> has_shape v (nat Nconfigs) (nat (Nknots + 1))))
   \<and> (Rcut < Rmin \<and> Nknots \<ge> 1 \<and> 0 \<le> Nconfigs \<and> Nconfigs \<le> int (length Dismat) \<longrightarrow>
      (\<exists>tw. Twobody_init name Dismat Nconfigs Rcut Nknots (Some Rmin) Nswitch = Inr tw
         \<and> self_dx tw = (Rcut - Rmin) / of_int Nknots \<and> self_dx tw < 0
         \<and> self_cols tw = Nknots + 1
         \<and> self_v tw = replicate (nat Nconfigs) (replicate (nat (Nknots + 1)) 0)))"
proof (intro conjI impI)
  assume "Nknots = 0"
  then show "Twobody_init name Dismat Nconfigs Rcut Nknots (Some Rmin) Nswitch
      = Inl ZeroDivisionError"
    by (simp add: Twobody_init_def)
next
  assume neg: "Nknots < 0"
  show "Twobody_init name Dismat Nconfigs Rcut Nknots (Some Rmin) Nswitch = Inl ValueError"
  proof (cases "Nknots + 1 < 0")
    case True
    then show ?thesis using neg by (simp add: Twobody_init_def np_linspace_def)
  next
    case False
    then have "Nknots = - 1" using neg by simp
    then show ?thesis
      by (simp add: Twobody_init_def np_linspace_def spline_construction_def)
  qed
next
  assume ok: "Rcut > Rmin \<and> Nknots \<ge> 1 \<and> 0 \<le> Nconfigs \<and> Nconfigs \<le> int (length Dismat)"
  let ?cols = "Nknots + 1"
  let ?dx = "(Rcut - Rmin) / of_int Nknots"
  let ?n = "nat ?cols - 1" and ?c = "nat ?cols"
  have cols: "2 \<le> ?cols" using ok by simp
  have dxeq: "?dx = (Rcut - Rmin) / of_int (?cols - 1)" by simp
  have ne: "Nknots \<noteq> 0" using ok by simp
  have n: "?n = nat Nknots" by simp
  note g = grid_spacing [OF _ cols dxeq]
  have dx: "?dx \<noteq> 0" using g(1) ok by simp
  note b = basis_shapes [OF cols dx]
  obtain x where x: "np_linspace Rmin Rcut ?cols = Inr x"
    using np_linspace_Inr [of ?cols Rmin Rcut] cols by auto
  have lx: "length x = ?c" by (rule np_linspace_grid(1) [OF cols x])
  have xk: "\<forall>k<?c. x ! k = Rmin + real k * ?dx"
    using np_linspace_grid(2) [OF cols x] by simp
  obtain v where v: "spline_energy_model Rcut Rmin Dismat ?cols ?dx Nconfigs x = Inr v"
    "has_shape v (nat Nconfigs) ?c"
    using spline_energy_model_defined [OF _ cols dxeq lx, of Nconfigs Dismat] ok by blast
  have sc: "spline_construction Nknots ?cols ?dx =
       Inr (build_C ?n ?c, Finite_array (finite_D ?n ?c ?dx), build_B ?n ?c ?dx,
            build_A ?n ?c ?dx)"
    using b(1) by simp
  have "Twobody_init name Dismat Nconfigs Rcut Nknots (Some Rmin) Nswitch =
           Inr \<lparr>self_name = name, self_Rcut = Rcut, self_Rmin = Rmin,
                self_Nknots = Nknots, self_Nswitch = Nswitch,
                self_Dismat = Dismat, self_Nconfigs = Nconfigs,
                self_dx = ?dx, self_cols = ?cols,
                self_interval = x, self_C = build_C ?n ?c,
                self_D = Finite_array (finite_D ?n ?c ?dx),
                self_B = build_B ?n ?c ?dx, self_A = build_A ?n ?c ?dx,
                self_v = v\<rparr>"
    using ne x sc v(1) by (simp add: Twobody_init_def Let_def)
  then show "\<exists>x C D B A v.
         Twobody_init name Dismat Nconfigs Rcut Nknots (Some Rmin) Nswitch =
           Inr \<lparr>self_name = name, self_Rcut = Rcut, self_Rmin = Rmin,
                self_Nknots = Nknots, self_Nswitch = Nswitch,
                self_Dismat = Dismat, self_Nconfigs = Nconfigs,
                self_dx = (Rcut - Rmin) / of_int Nknots, self_cols = Nknots + 1,
                self_interval = x, self_C = C, self_D = Finite_array D, self_B = B,
                self_A = A, self_v = v\<rparr>
       \<and> np_linspace Rmin Rcut (Nknots + 1) = Inr x \<and> length x = nat (Nknots + 1)
       \<and> (\<forall>k<nat (Nknots + 1). x ! k = Rmin + real k * ((Rcut - Rmin) / of_int Nknots))
       \<and> spline_construction Nknots (Nknots + 1) ((Rcut - Rmin) / of_int Nknots)
            = Inr (C, Finite_array D, B, A)
       \<and> has_shape C (nat Nknots) (nat (Nknots + 1))
       \<and> has_shape D (nat Nknots) (nat (Nknots + 1))
       \<and> has_shape B (nat Nknots) (nat (Nknots + 1))
       \<and> has_shape A (nat Nknots) (nat (Nknots + 1))
       \<and> spline_energy_model Rcut Rmin Dismat (Nknots + 1)
            ((Rcut - Rmin) / of_int Nknots) Nconfigs x = Inr v
       \<and> has_shape v (nat Nconfigs) (nat (Nknots + 1))"
    using x lx xk sc b(2-5) v unfolding n by blast
next
  assume lo: "Rcut < Rmin \<and> Nknots \<ge> 1 \<and> 0 \<le> Nconfigs \<and> Nconfigs \<le> int (length Dismat)"
  let ?cols = "Nknots + 1"
  let ?dx = "(Rcut - Rmin) / of_int Nknots"
  let ?n = "nat ?cols - 1" and ?c = "nat ?cols"
  have cols: "2 \<le> ?cols" using lo by simp
  have ne: "Nknots \<noteq> 0" using lo by simp
  have neg: "?dx < 0" using lo by (simp add: divide_neg_pos)
  then have dx: "?dx \<noteq> 0" by linarith
  note b = basis_shapes [OF cols dx]
  obtain x where x: "np_linspace Rmin Rcut ?cols = Inr x"
    using np_linspace_Inr [of ?cols Rmin Rcut] cols by auto
  have v: "spline_energy_model Rcut Rmin Dismat ?cols ?dx Nconfigs x =
      Inr (replicate (nat Nconfigs) (replicate ?c 0))"
    using lo by (intro spline_energy_model_Rcut_below_Rmin cols dx) simp_all
  have sc: "spline_construction Nknots ?cols ?dx =
       Inr (build_C ?n ?c, Finite_array (finite_D ?n ?c ?dx), build_B ?n ?c ?dx,
            build_A ?n ?c ?dx)"
    using b(1) by simp
  have "Twobody_init name Dismat Nconfigs Rcut Nknots (Some Rmin) Nswitch =
           Inr \<lparr>self_name = name, self_Rcut = Rcut, self_Rmin = Rmin,
                self_Nknots = Nknots, self_Nswitch = Nswitch,
                self_Dismat = Dismat, self_Nconfigs = Nconfigs,
                self_dx = ?dx, self_cols = ?cols,
                self_interval = x, self_C = build_C ?n ?c,
                self_D = Finite_array (finite_D ?n ?c ?dx),
                self_B = build_B ?n ?c ?dx, self_A = build_A ?n ?c ?dx,
                self_v = replicate (nat Nconfigs) (replicate ?c 0)\<rparr>"
    using ne x sc v by (simp add: Twobody_init_def Let_def)
  then show "\<exists>tw. Twobody_init name Dismat Nconfigs Rcut Nknots (Some Rmin) Nswitch = Inr tw
         \<and> self_dx tw = (Rcut - Rmin) / of_int Nknots \<and> self_dx tw < 0
         \<and> self_cols tw = Nknots + 1
         \<and> self_v tw = replicate (nat Nconfigs) (replicate (nat (Nknots + 1)) 0)"
    using neg by simp
qed

theorem Twobody_init_construction_witness:
  "Twobody_init ''pair'' [[3.5]] 1 6 0 (Some 2) None = Inl ZeroDivisionError
   \<and> Twobody_init ''pair'' [[3.5]] 1 6 (- 3) (Some 2) None = Inl ValueError
   \<and> (6::real) > 2 \<and> (4::int) \<ge> 1 \<and> (0::int) \<le> 1 \<and> (1::int) \<le> int (length [[3.5::real]])
   \<and> (\<exists>tw. Twobody_init ''pair'' [[3.5]] 1 6 4 (Some 2) None = Inr tw
        \<and> self_dx tw = 1 \<and> self_cols tw = 5 \<and> length (self_interval tw) = 5
        \<and> has_shape (self_A tw) 4 5 \<and> has_shape (self_v tw) 1 5)
   \<and> (1::real) < 2
   \<and> (\<exists>tw. Twobody_init ''pair'' [[3.5]] 1 1 4 (Some 2) None = Inr tw
        \<and> self_dx tw = - 1 / 4 \<and> self_cols tw = 5 \<and> self_v tw = [[0, 0, 0, 0, 0]])"
proof -
  have z: "Twobody_init ''pair'' [[3.5]] 1 6 0 (Some 2) None = Inl ZeroDivisionError"
    using Twobody_init_construction [where Nknots = 0 and name = "''pair''"
        and Dismat = "[[3.5]]" and Nconfigs = 1 and Rcut = 6 and Rmin = 2 and Nswitch = None]
    by simp
  have n: "Twobody_init ''pair'' [[3.5]] 1 6 (- 3) (Some 2) None = Inl ValueError"
    using Twobody_init_construction [where Nknots = "- 3" and name = "''pair''"
        and Dismat = "[[3.5]]" and Nconfigs = 1 and Rcut = 6 and Rmin = 2 and Nswitch = None]
    by simp
  have hi: "\<exists>tw. Twobody_init ''pair'' [[3.5]] 1 6 4 (Some 2) None = Inr tw
        \<and> self_dx tw = 1 \<and> self_cols tw = 5 \<and> length (self_interval tw) = 5
        \<and> has_shape (self_A tw) 4 5 \<and> has_shape (self_v tw) 1 5"
    using Twobody_init_construction [where Nknots = 4 and name = "''pair''"
        and Dismat = "[[3.5]]" and Nconfigs = 1 and Rcut = 6 and Rmin = 2 and Nswitch = None]
    by auto
  have lo: "\<exists>tw. Twobody_init ''pair'' [[3.5]] 1 1 4 (Some 2) None = Inr tw
        \<and> self_dx tw = - 1 / 4 \<and> self_cols tw = 5 \<and> self_v tw = [[0, 0, 0, 0, 0]]"
    using Twobody_init_construction [where Nknots = 4 and name = "''pair''"
        and Dismat = "[[3.5]]" and Nconfigs = 1 and Rcut = 1 and Rmin = 2 and Nswitch = None]
    by (auto simp: numeral_eq_Suc)
  show ?thesis using z n hi lo by simp
qed

text \<open>
  C1, as the specification states it, fails: with \<open>Rcut = 1 < Rmin = 2\<close> and
  \<open>Nknots = 1\<close> no error is raised; the object is built with \<open>dx = -1\<close> and a zero design
  matrix.
\<close>

theorem Twobody_init_accepts_Rcut_below_Rmin:
  "(1::real) \<le> 2
   \<and> Twobody_init ''pair'' [[1.5]] 1 1 1 (Some 2) None =
      Inr \<lparr>self_name = ''pair'', self_Rcut = 1, self_Rmin = 2, self_Nknots = 1,
           self_Nswitch = None, self_Dismat = [[1.5]], self_Nconfigs = 1,
           self_dx = - 1, self_cols = 2, self_interval = [2, 1],
           self_C = [[0, 1]], self_D = Finite_array [[1, - 1]], self_B = [[0, 0]],
           self_A = [[0, 0]], self_v = [[0, 0]]\<rparr>"
proof -
  have "Twobody_init ''pair'' [[1.5]] 1 1 1 (Some 2) None =
      Inr \<lparr>self_name = ''pair'', self_Rcut = 1, self_Rmin = 2, self_Nknots = 1,
           self_Nswitch = None, self_Dismat = [[1.5]], self_Nconfigs = 1,
           self_dx = - 1, self_cols = 2, self_interval = [2, 1],
           self_C = [[0, 1]], self_D = Finite_array [[1, - 1]], self_B = [[0, 0]],
           self_A = [[0, 0]], self_v = [[0, 0]]\<rparr>"
    by code_simp
  then show ?thesis by simp
qed

text \<open>
  At \<open>Rcut = Rmin\<close> the spacing \<open>dx\<close> is 0 and \<open>D\<close> is an array divided by zero.  The
  construction then raises \<^verbatim>\<open>ValueError\<close> when a distance equal to \<open>Rmin\<close> is met (the
  index is the integer of \<open>nan\<close>), and succeeds otherwise.
\<close>

lemma Twobody_init_at_Rcut_eq_Rmin:
  "Twobody_init ''pair'' [[2]] 1 2 1 (Some 2) None = Inl ValueError
   \<and> Twobody_init ''pair'' [[3]] 1 2 1 (Some 2) None =
      Inr \<lparr>self_name = ''pair'', self_Rcut = 2, self_Rmin = 2, self_Nknots = 1,
           self_Nswitch = None, self_Dismat = [[3]], self_Nconfigs = 1,
           self_dx = 0, self_cols = 2, self_interval = [2, 2],
           self_C = [[0, 1]], self_D = Div_by_zero [[- 1, 1]], self_B = [[0, 0]],
           self_A = [[0, 0]], self_v = [[0, 0]]\<rparr>"
  by code_simp

end
